theory Spec2Isabelle
  imports Main "HOL-Library.Word"
begin

unbundle bit_operations_syntax

section \<open>The wrapped engine's plain data\<close>

text \<open>
  \<open>include/Model.hpp\<close> declares \<open>class Model : public ::Model\<close>: the wrapper has exactly
  the fields of the engine's struct. The C types are modelled at their machine width:
  \<open>int\<close> is a 32-bit two's-complement word, \<open>float\<close> is the 32-bit IEEE-754 bit pattern,
  a pointer is an address with \<open>nullptr\<close> the address 0.
\<close>

type_synonym cint = "32 word"
type_synonym cfloat = "32 word"
type_synonym addr = nat

definition nullptr :: addr where
  "nullptr = 0"

text \<open>
  The only float operations of \<open>Model.hpp\<close> are the comparisons \<open><\<close> and \<open>></\<close> of
  \<open>GetTransformedBoundingBox\<close>. On binary32 they are decided by the bit pattern: a NaN
  (exponent all ones, mantissa not zero) compares false with everything; any other value is
  ordered by its sign and magnitude bits, with \<open>-0\<close> and \<open>+0\<close> equal.
\<close>

definition float_is_nan :: "cfloat \<Rightarrow> bool" where
  "float_is_nan f \<longleftrightarrow> 0x7F800000 < (f AND 0x7FFFFFFF)"

definition float_key :: "cfloat \<Rightarrow> int" where
  "float_key f = (if bit f 31 then - uint (f AND 0x7FFFFFFF) else uint (f AND 0x7FFFFFFF))"

definition float_less :: "cfloat \<Rightarrow> cfloat \<Rightarrow> bool" where
  "float_less f g \<longleftrightarrow> \<not> float_is_nan f \<and> \<not> float_is_nan g \<and> float_key f < float_key g"

definition float_greater :: "cfloat \<Rightarrow> cfloat \<Rightarrow> bool" where
  "float_greater f g \<longleftrightarrow> float_less g f"

record Vector3 =
  x :: cfloat
  y :: cfloat
  z :: cfloat

text \<open>\<open>BoundingBox\<close> has the two corners \<open>min\<close> and \<open>max\<close>.\<close>

record BoundingBox =
  min_bb :: Vector3
  max_bb :: Vector3

text \<open>\<open>Matrix\<close> (sixteen floats) and \<open>Color\<close> (four bytes) are only passed on.\<close>

datatype Matrix = Matrix "cfloat list"

datatype Color = Color "8 word" "8 word" "8 word" "8 word"

record Model =
  transform :: Matrix
  meshCount :: cint
  materialCount :: cint
  meshes :: addr
  materials :: addr
  meshMaterial :: addr
  boneCount :: cint
  bones :: addr
  bindPose :: addr

section \<open>Memory, the engine and the program state\<close>

text \<open>
  The world outside the wrapper objects: the \<open>::Mesh\<close> cells of memory, addressed in units
  of one \<open>Mesh\<close>, and whatever else the engine keeps (\<open>ext\<close>). \<open>::Mesh\<close> and
  \<open>::ModelAnimation\<close> are declared by the engine's header and stay type parameters.
\<close>

record ('mesh, 'w) world =
  mesh_mem :: "addr \<Rightarrow> 'mesh option"
  ext :: 'w

text \<open>
  The functions \<open>Model.hpp\<close> calls and does not define; the engine's free function
  \<open>::F\<close> is the field \<open>raylib_F\<close>. The engine's free functions take
  the model by value, so they return a new world and never a changed model;
  \<open>::SetModelMeshMaterial\<close> takes a pointer and returns the model it leaves behind.
  \<open>Mesh_GetTransformedBoundingBox\<close> is \<open>raylib::Mesh::GetTransformedBoundingBox\<close> of
  \<open>Mesh.hpp\<close>, a const method; \<open>Radian_float\<close> is the conversion of a \<open>Radian\<close> to the
  \<open>float\<close> that \<open>::DrawModelEx\<close> takes.
\<close>

record ('mesh, 'anim, 'rad, 'w) engine =
  raylib_LoadModel :: "string \<Rightarrow> ('mesh, 'w) world \<Rightarrow> Model \<times> ('mesh, 'w) world"
  raylib_LoadModelFromMesh :: "'mesh \<Rightarrow> ('mesh, 'w) world \<Rightarrow> Model \<times> ('mesh, 'w) world"
  raylib_UnloadModel :: "Model \<Rightarrow> ('mesh, 'w) world \<Rightarrow> ('mesh, 'w) world"
  raylib_IsModelReady :: "Model \<Rightarrow> ('mesh, 'w) world \<Rightarrow> bool \<times> ('mesh, 'w) world"
  raylib_GetModelBoundingBox :: "Model \<Rightarrow> ('mesh, 'w) world \<Rightarrow> BoundingBox \<times> ('mesh, 'w) world"
  raylib_SetModelMeshMaterial ::
    "Model \<Rightarrow> cint \<Rightarrow> cint \<Rightarrow> ('mesh, 'w) world \<Rightarrow> Model \<times> ('mesh, 'w) world"
  raylib_UpdateModelAnimation :: "Model \<Rightarrow> 'anim \<Rightarrow> cint \<Rightarrow> ('mesh, 'w) world \<Rightarrow> ('mesh, 'w) world"
  raylib_IsModelAnimationValid :: "Model \<Rightarrow> 'anim \<Rightarrow> ('mesh, 'w) world \<Rightarrow> bool \<times> ('mesh, 'w) world"
  raylib_DrawModel :: "Model \<Rightarrow> Vector3 \<Rightarrow> cfloat \<Rightarrow> Color \<Rightarrow> ('mesh, 'w) world \<Rightarrow> ('mesh, 'w) world"
  raylib_DrawModelEx ::
    "Model \<Rightarrow> Vector3 \<Rightarrow> Vector3 \<Rightarrow> cfloat \<Rightarrow> Vector3 \<Rightarrow> Color \<Rightarrow> ('mesh, 'w) world
      \<Rightarrow> ('mesh, 'w) world"
  raylib_DrawModelWires ::
    "Model \<Rightarrow> Vector3 \<Rightarrow> cfloat \<Rightarrow> Color \<Rightarrow> ('mesh, 'w) world \<Rightarrow> ('mesh, 'w) world"
  raylib_DrawModelWiresEx ::
    "Model \<Rightarrow> Vector3 \<Rightarrow> Vector3 \<Rightarrow> cfloat \<Rightarrow> Vector3 \<Rightarrow> Color \<Rightarrow> ('mesh, 'w) world
      \<Rightarrow> ('mesh, 'w) world"
  Mesh_GetTransformedBoundingBox :: "('mesh, 'w) world \<Rightarrow> 'mesh \<Rightarrow> Matrix \<Rightarrow> BoundingBox"
  Radian_float :: "'rad \<Rightarrow> cfloat"

text \<open>Every engine call the wrapper makes is logged with the arguments it passes.\<close>

datatype ('mesh, 'anim) engine_call =
    Call_LoadModel string
  | Call_LoadModelFromMesh 'mesh
  | Call_UnloadModel Model
  | Call_IsModelReady Model
  | Call_GetModelBoundingBox Model
  | Call_SetModelMeshMaterial addr cint cint
  | Call_UpdateModelAnimation Model 'anim cint
  | Call_IsModelAnimationValid Model 'anim
  | Call_DrawModel Model Vector3 cfloat Color
  | Call_DrawModelEx Model Vector3 Vector3 cfloat Vector3 Color
  | Call_DrawModelWires Model Vector3 cfloat Color
  | Call_DrawModelWiresEx Model Vector3 Vector3 cfloat Vector3 Color

text \<open>
  The program state: the wrapper objects by address (\<open>this == &other\<close> compares
  addresses), the world, and the log of engine calls.
\<close>

record ('mesh, 'anim, 'w) state =
  objs :: "addr \<Rightarrow> Model"
  world :: "('mesh, 'w) world"
  calls :: "('mesh, 'anim) engine_call list"

datatype RaylibException = RaylibException string

text \<open>Reads outside what memory holds: undefined behaviour, kept apart from every result.\<close>

datatype fault = InvalidMeshRead | InvalidStringRead

text \<open>
  A \<open>std::string_view\<close>: the pointer \<open>data()\<close>, given by the characters that memory holds
  from that address to the end of the array it points into, and \<open>size()\<close>. The view itself
  is the first \<open>size()\<close> of those characters (\<open>to_string\<close>, the \<open>std::string(fileName)\<close> of
  the source). A reader of \<open>data()\<close> as a \<open>const char*\<close> takes the characters up to the first
  NUL, wherever the view ends (\<open>c_str\<close>); with no NUL in the array it reads past its end.
\<close>

record string_view =
  sv_data :: string
  sv_size :: nat

definition to_string :: "string_view \<Rightarrow> string option" where
  "to_string v =
     (if sv_size v \<le> length (sv_data v) then Some (take (sv_size v) (sv_data v)) else None)"

definition c_str :: "string_view \<Rightarrow> string option" where
  "c_str v =
     (if CHR 0x00 \<in> set (sv_data v)
      then Some (takeWhile (\<lambda>c. c \<noteq> CHR 0x00) (sv_data v)) else None)"

section \<open>\<open>GetTransformedBoundingBox\<close>\<close>

text \<open>\<open>meshes[i]\<close>: reading outside the cells that hold a mesh is undefined behaviour.\<close>

definition mesh_at :: "('mesh, 'w) world \<Rightarrow> addr \<Rightarrow> nat \<Rightarrow> 'mesh option" where
  "mesh_at w p i = (if p = nullptr then None else mesh_mem w (p + i))"

text \<open>\<open>BoundingBox bounds = {}\<close>: every float is \<open>+0.0\<close>, the all-zero pattern.\<close>

definition BoundingBox_zero :: BoundingBox where
  "BoundingBox_zero =
     \<lparr>min_bb = \<lparr>x = 0, y = 0, z = 0\<rparr>, max_bb = \<lparr>x = 0, y = 0, z = 0\<rparr>\<rparr>"

text \<open>The body of the \<open>for\<close> loop after \<open>tempBounds\<close> is computed (lines 202 to 210).\<close>

definition loop_body :: "BoundingBox \<Rightarrow> BoundingBox \<Rightarrow> BoundingBox" where
  "loop_body bounds tempBounds =
     (let temp = \<lparr>x = (if float_less (x (min_bb bounds)) (x (min_bb tempBounds))
                        then x (min_bb bounds) else x (min_bb tempBounds)),
                  y = (if float_less (y (min_bb bounds)) (y (min_bb tempBounds))
                        then y (min_bb bounds) else y (min_bb tempBounds)),
                  z = (if float_less (z (min_bb bounds)) (z (min_bb tempBounds))
                        then z (min_bb bounds) else z (min_bb tempBounds))\<rparr>;
          bounds = bounds\<lparr>min_bb := temp\<rparr>;
          temp = \<lparr>x = (if float_greater (x (max_bb bounds)) (x (max_bb tempBounds))
                        then x (max_bb bounds) else x (max_bb tempBounds)),
                  y = (if float_greater (y (max_bb bounds)) (y (max_bb tempBounds))
                        then y (max_bb bounds) else y (max_bb tempBounds)),
                  z = (if float_greater (z (max_bb bounds)) (z (max_bb tempBounds))
                        then z (max_bb bounds) else z (max_bb tempBounds))\<rparr>
      in bounds\<lparr>max_bb := temp\<rparr>)"

function bounds_loop ::
  "('mesh, 'anim, 'rad, 'w) engine \<Rightarrow> ('mesh, 'w) world \<Rightarrow> Model \<Rightarrow> cint \<Rightarrow> BoundingBox
    \<Rightarrow> fault + BoundingBox" where
  "bounds_loop eng w m i bounds =
     (if i <s meshCount m then
        (case mesh_at w (meshes m) (nat (sint i)) of
           None \<Rightarrow> Inl InvalidMeshRead
         | Some mesh \<Rightarrow>
             bounds_loop eng w m (i + 1)
               (loop_body bounds (Mesh_GetTransformedBoundingBox eng w mesh (transform m))))
      else Inr bounds)"
  by pat_completeness auto
termination
proof (relation "measure (\<lambda>(eng, w, m, i, bounds). nat (sint (meshCount m) - sint i))")
  fix eng :: "('mesh, 'anim, 'rad, 'w) engine" and w :: "('mesh, 'w) world"
    and m :: Model and i :: cint and bounds :: BoundingBox and mesh :: 'mesh
  assume below: "i <s meshCount m"
  have "sint (meshCount m) < 2 ^ 31" using sint_lt [of "meshCount m"] by simp
  moreover have "- (2 ^ 31) \<le> sint i" using sint_ge [of i] by simp
  moreover have "sint i < sint (meshCount m)" using below by (simp add: word_sless_alt)
  ultimately have "sint (i + 1) = sint i + 1"
    by (simp add: sint_word_ariths signed_take_bit_int_eq_self)
  with \<open>sint i < sint (meshCount m)\<close>
  show "((eng, w, m, i + 1,
           loop_body bounds (Mesh_GetTransformedBoundingBox eng w mesh (transform m))),
          (eng, w, m, i, bounds))
        \<in> measure (\<lambda>(eng, w, m, i, bounds). nat (sint (meshCount m) - sint i))"
    by simp
qed simp

declare bounds_loop.simps [simp del]

definition GetTransformedBoundingBox ::
  "('mesh, 'anim, 'rad, 'w) engine \<Rightarrow> addr \<Rightarrow> ('mesh, 'anim, 'w) state
    \<Rightarrow> fault + BoundingBox \<times> ('mesh, 'anim, 'w) state" where
  "GetTransformedBoundingBox eng this st =
     (let m = objs st this; bounds = BoundingBox_zero in
      if 0 <s meshCount m then
        (case mesh_at (world st) (meshes m) 0 of
           None \<Rightarrow> Inl InvalidMeshRead
         | Some mesh \<Rightarrow>
             (case bounds_loop eng (world st) m 1
                     (Mesh_GetTransformedBoundingBox eng (world st) mesh (transform m)) of
                Inl e \<Rightarrow> Inl e
              | Inr bounds \<Rightarrow> Inr (bounds, st)))
      else Inr (bounds, st))"


section \<open>Construction, assignment and unloading\<close>

text \<open>The private \<open>set\<close>: nine field assignments into \<open>*this\<close>.\<close>

definition set_Model ::
  "addr \<Rightarrow> Model \<Rightarrow> ('mesh, 'anim, 'w) state \<Rightarrow> ('mesh, 'anim, 'w) state" where
  "set_Model this model st =
     st\<lparr>objs := (objs st)(this := (objs st this)
        \<lparr>transform := transform model,
         meshCount := meshCount model,
         materialCount := materialCount model,
         meshes := meshes model,
         materials := materials model,
         meshMaterial := meshMaterial model,
         boneCount := boneCount model,
         bones := bones model,
         bindPose := bindPose model\<rparr>)\<rparr>"

text \<open>\<open>Model()\<close> assigns nothing: the fields keep what the storage held.\<close>

definition Model_default ::
  "addr \<Rightarrow> ('mesh, 'anim, 'w) state \<Rightarrow> ('mesh, 'anim, 'w) state" where
  "Model_default this st = st"

text \<open>\<open>Model(const ::Model&)\<close> and \<open>operator=(const ::Model&)\<close>.\<close>

definition Model_copy ::
  "addr \<Rightarrow> Model \<Rightarrow> ('mesh, 'anim, 'w) state \<Rightarrow> ('mesh, 'anim, 'w) state" where
  "Model_copy this model st = set_Model this model st"

definition assign_raw ::
  "addr \<Rightarrow> Model \<Rightarrow> ('mesh, 'anim, 'w) state \<Rightarrow> ('mesh, 'anim, 'w) state" where
  "assign_raw this model st = set_Model this model st"

definition IsReady ::
  "('mesh, 'anim, 'rad, 'w) engine \<Rightarrow> addr \<Rightarrow> ('mesh, 'anim, 'w) state
    \<Rightarrow> bool \<times> ('mesh, 'anim, 'w) state" where
  "IsReady eng this st =
     (let (r, w) = raylib_IsModelReady eng (objs st this) (world st)
      in (r, st\<lparr>world := w, calls := calls st @ [Call_IsModelReady (objs st this)]\<rparr>))"

text \<open>
  The two \<open>Load\<close> overloads. A thrown exception is a left summand; it carries the state
  the throw leaves behind, in which \<open>set\<close> has already run. \<open>Load(fileName)\<close> passes
  \<open>fileName.data()\<close> to \<open>::LoadModel\<close>, which reads it as a C string, and builds the message
  from \<open>std::string(fileName)\<close>; either read can leave the memory at hand, hence the outer
  summand.
\<close>

definition Load_file ::
  "('mesh, 'anim, 'rad, 'w) engine \<Rightarrow> addr \<Rightarrow> string_view \<Rightarrow> ('mesh, 'anim, 'w) state
    \<Rightarrow> fault + (RaylibException \<times> ('mesh, 'anim, 'w) state + ('mesh, 'anim, 'w) state)" where
  "Load_file eng this fileName st =
     (case c_str fileName of
        None \<Rightarrow> Inl InvalidStringRead
      | Some name \<Rightarrow>
          (let (model, w) = raylib_LoadModel eng name (world st);
               st = set_Model this model
                      (st\<lparr>world := w, calls := calls st @ [Call_LoadModel name]\<rparr>);
               (ready, st) = IsReady eng this st
           in if \<not> ready
              then (case to_string fileName of
                      None \<Rightarrow> Inl InvalidStringRead
                    | Some text \<Rightarrow>
                        Inr (Inl (RaylibException (''Failed to load Model from '' @ text), st)))
              else Inr (Inr st)))"

definition Load_mesh ::
  "('mesh, 'anim, 'rad, 'w) engine \<Rightarrow> addr \<Rightarrow> 'mesh \<Rightarrow> ('mesh, 'anim, 'w) state
    \<Rightarrow> RaylibException \<times> ('mesh, 'anim, 'w) state + ('mesh, 'anim, 'w) state" where
  "Load_mesh eng this mesh st =
     (let (model, w) = raylib_LoadModelFromMesh eng mesh (world st);
          st = set_Model this model
                 (st\<lparr>world := w, calls := calls st @ [Call_LoadModelFromMesh mesh]\<rparr>);
          (ready, st) = IsReady eng this st
      in if \<not> ready
         then Inl (RaylibException ''Failed to load Model from Mesh'', st)
         else Inr st)"

text \<open>\<open>Model(const std::string_view)\<close> and \<open>Model(const ::Mesh&)\<close>.\<close>

definition Model_file ::
  "('mesh, 'anim, 'rad, 'w) engine \<Rightarrow> addr \<Rightarrow> string_view \<Rightarrow> ('mesh, 'anim, 'w) state
    \<Rightarrow> fault + (RaylibException \<times> ('mesh, 'anim, 'w) state + ('mesh, 'anim, 'w) state)" where
  "Model_file eng this fileName st = Load_file eng this fileName st"

definition Model_mesh ::
  "('mesh, 'anim, 'rad, 'w) engine \<Rightarrow> addr \<Rightarrow> 'mesh \<Rightarrow> ('mesh, 'anim, 'w) state
    \<Rightarrow> RaylibException \<times> ('mesh, 'anim, 'w) state + ('mesh, 'anim, 'w) state" where
  "Model_mesh eng this mesh st = Load_mesh eng this mesh st"

definition Unload ::
  "('mesh, 'anim, 'rad, 'w) engine \<Rightarrow> addr \<Rightarrow> ('mesh, 'anim, 'w) state
    \<Rightarrow> ('mesh, 'anim, 'w) state" where
  "Unload eng this st =
     (if meshes (objs st this) \<noteq> nullptr \<or> materials (objs st this) \<noteq> nullptr then
        (let st = st\<lparr>world := raylib_UnloadModel eng (objs st this) (world st),
                      calls := calls st @ [Call_UnloadModel (objs st this)]\<rparr>;
             st = st\<lparr>objs := (objs st)(this := (objs st this)\<lparr>meshes := nullptr\<rparr>)\<rparr>;
             st = st\<lparr>objs := (objs st)(this := (objs st this)\<lparr>materials := nullptr\<rparr>)\<rparr>
         in st)
      else st)"

text \<open>\<open>~Model()\<close>.\<close>

definition Model_dtor ::
  "('mesh, 'anim, 'rad, 'w) engine \<Rightarrow> addr \<Rightarrow> ('mesh, 'anim, 'w) state
    \<Rightarrow> ('mesh, 'anim, 'w) state" where
  "Model_dtor eng this st = Unload eng this st"

text \<open>The eight assignments to \<open>other\<close> that end both move operations.\<close>

definition null_out ::
  "addr \<Rightarrow> ('mesh, 'anim, 'w) state \<Rightarrow> ('mesh, 'anim, 'w) state" where
  "null_out other st =
     st\<lparr>objs := (objs st)(other := (objs st other)
        \<lparr>meshCount := 0,
         materialCount := 0,
         meshes := nullptr,
         materials := nullptr,
         meshMaterial := nullptr,
         boneCount := 0,
         bones := nullptr,
         bindPose := nullptr\<rparr>)\<rparr>"

text \<open>\<open>Model(Model&& other)\<close>: \<open>this\<close> is the storage of the object being built.\<close>

definition Model_move ::
  "addr \<Rightarrow> addr \<Rightarrow> ('mesh, 'anim, 'w) state \<Rightarrow> ('mesh, 'anim, 'w) state" where
  "Model_move this other st = null_out other (set_Model this (objs st other) st)"

text \<open>\<open>operator=(Model&& other)\<close>.\<close>

definition assign_move ::
  "('mesh, 'anim, 'rad, 'w) engine \<Rightarrow> addr \<Rightarrow> addr \<Rightarrow> ('mesh, 'anim, 'w) state
    \<Rightarrow> ('mesh, 'anim, 'w) state" where
  "assign_move eng this other st =
     (if this = other then st
      else
        (let st = Unload eng this st;
             st = set_Model this (objs st other) st
         in null_out other st))"

section \<open>The forwarding methods\<close>



definition IsModelAnimationValid ::
  "('mesh, 'anim, 'rad, 'w) engine \<Rightarrow> addr \<Rightarrow> 'anim \<Rightarrow> ('mesh, 'anim, 'w) state \<Rightarrow> bool \<times> ('mesh, 'anim, 'w) state" where
  "IsModelAnimationValid eng this anim st =
     (let (r, w) = raylib_IsModelAnimationValid eng (objs st this) anim (world st)
      in (r, st\<lparr>world := w,
                calls := calls st @ [Call_IsModelAnimationValid (objs st this) anim]\<rparr>))"

text \<open>
  The two \<open>Draw\<close> and the two \<open>DrawWires\<close> overloads; the \<open>Ex\<close> suffix names the overload
  with a rotation. Default arguments are filled in by the caller.
\<close>

definition Draw ::
  "('mesh, 'anim, 'rad, 'w) engine \<Rightarrow> addr \<Rightarrow> Vector3 \<Rightarrow> cfloat \<Rightarrow> Color \<Rightarrow> ('mesh, 'anim, 'w) state \<Rightarrow> ('mesh, 'anim, 'w) state" where
  "Draw eng this position scale tint st =
     st\<lparr>world := raylib_DrawModel eng (objs st this) position scale tint (world st),
        calls := calls st @ [Call_DrawModel (objs st this) position scale tint]\<rparr>"

definition DrawEx ::
  "('mesh, 'anim, 'rad, 'w) engine \<Rightarrow> addr \<Rightarrow> Vector3 \<Rightarrow> Vector3 \<Rightarrow> 'rad \<Rightarrow> Vector3 \<Rightarrow> Color \<Rightarrow> ('mesh, 'anim, 'w) state \<Rightarrow> ('mesh, 'anim, 'w) state" where
  "DrawEx eng this position rotationAxis rotationAngle scale tint st =
     st\<lparr>world := raylib_DrawModelEx eng (objs st this) position rotationAxis
                   (Radian_float eng rotationAngle) scale tint (world st),
        calls := calls st @ [Call_DrawModelEx (objs st this) position rotationAxis
                   (Radian_float eng rotationAngle) scale tint]\<rparr>"

definition DrawWires ::
  "('mesh, 'anim, 'rad, 'w) engine \<Rightarrow> addr \<Rightarrow> Vector3 \<Rightarrow> cfloat \<Rightarrow> Color \<Rightarrow> ('mesh, 'anim, 'w) state \<Rightarrow> ('mesh, 'anim, 'w) state" where
  "DrawWires eng this position scale tint st =
     st\<lparr>world := raylib_DrawModelWires eng (objs st this) position scale tint (world st),
        calls := calls st @ [Call_DrawModelWires (objs st this) position scale tint]\<rparr>"

definition DrawWiresEx ::
  "('mesh, 'anim, 'rad, 'w) engine \<Rightarrow> addr \<Rightarrow> Vector3 \<Rightarrow> Vector3 \<Rightarrow> 'rad \<Rightarrow> Vector3 \<Rightarrow> Color \<Rightarrow> ('mesh, 'anim, 'w) state \<Rightarrow> ('mesh, 'anim, 'w) state" where
  "DrawWiresEx eng this position rotationAxis rotationAngle scale tint st =
     st\<lparr>world := raylib_DrawModelWiresEx eng (objs st this) position rotationAxis
                   (Radian_float eng rotationAngle) scale tint (world st),
        calls := calls st @ [Call_DrawModelWiresEx (objs st this) position rotationAxis
                   (Radian_float eng rotationAngle) scale tint]\<rparr>"

definition GetBoundingBox ::
  "('mesh, 'anim, 'rad, 'w) engine \<Rightarrow> addr \<Rightarrow> ('mesh, 'anim, 'w) state \<Rightarrow> BoundingBox \<times> ('mesh, 'anim, 'w) state" where
  "GetBoundingBox eng this st =
     (let (r, w) = raylib_GetModelBoundingBox eng (objs st this) (world st)
      in (r, st\<lparr>world := w, calls := calls st @ [Call_GetModelBoundingBox (objs st this)]\<rparr>))"

text \<open>\<open>operator BoundingBox()\<close>.\<close>

definition operator_BoundingBox ::
  "('mesh, 'anim, 'rad, 'w) engine \<Rightarrow> addr \<Rightarrow> ('mesh, 'anim, 'w) state \<Rightarrow> BoundingBox \<times> ('mesh, 'anim, 'w) state" where
  "operator_BoundingBox eng this st = GetBoundingBox eng this st"

section \<open>The accessors\<close>

text \<open>Modelled from the spec: the macro \<open>GETTERSETTER(type, method, name)\<close> of
  \<open>raylib-cpp-utils.hpp\<close>, which is not part of the sources at hand. The specification
  describes it as "exposing getters/setters for POD fields": \<open>Get<method>\<close> returns the
  field \<open>name\<close> of \<open>*this\<close> and \<open>Set<method>(value)\<close> assigns \<open>value\<close> to it.
\<close>

text \<open>Modelled from the spec: the getter of \<open>GETTERSETTER(::Matrix, Transform, transform)\<close>.\<close>

definition GetTransform ::
  "addr \<Rightarrow> ('mesh, 'anim, 'w) state \<Rightarrow> Matrix" where
  "GetTransform this st = transform (objs st this)"

text \<open>Modelled from the spec: the setter of \<open>GETTERSETTER(::Matrix, Transform, transform)\<close>.\<close>

definition SetTransform ::
  "addr \<Rightarrow> Matrix \<Rightarrow> ('mesh, 'anim, 'w) state \<Rightarrow> ('mesh, 'anim, 'w) state" where
  "SetTransform this v st =
     st\<lparr>objs := (objs st)(this := (objs st this)\<lparr>transform := v\<rparr>)\<rparr>"

text \<open>Modelled from the spec: the getter of \<open>GETTERSETTER(int, MeshCount, meshCount)\<close>.\<close>

definition GetMeshCount ::
  "addr \<Rightarrow> ('mesh, 'anim, 'w) state \<Rightarrow> cint" where
  "GetMeshCount this st = meshCount (objs st this)"

text \<open>Modelled from the spec: the setter of \<open>GETTERSETTER(int, MeshCount, meshCount)\<close>.\<close>

definition SetMeshCount ::
  "addr \<Rightarrow> cint \<Rightarrow> ('mesh, 'anim, 'w) state \<Rightarrow> ('mesh, 'anim, 'w) state" where
  "SetMeshCount this v st =
     st\<lparr>objs := (objs st)(this := (objs st this)\<lparr>meshCount := v\<rparr>)\<rparr>"

text \<open>Modelled from the spec: the getter of \<open>GETTERSETTER(int, MaterialCount, materialCount)\<close>.\<close>

definition GetMaterialCount ::
  "addr \<Rightarrow> ('mesh, 'anim, 'w) state \<Rightarrow> cint" where
  "GetMaterialCount this st = materialCount (objs st this)"

text \<open>Modelled from the spec: the setter of \<open>GETTERSETTER(int, MaterialCount, materialCount)\<close>.\<close>

definition SetMaterialCount ::
  "addr \<Rightarrow> cint \<Rightarrow> ('mesh, 'anim, 'w) state \<Rightarrow> ('mesh, 'anim, 'w) state" where
  "SetMaterialCount this v st =
     st\<lparr>objs := (objs st)(this := (objs st this)\<lparr>materialCount := v\<rparr>)\<rparr>"

text \<open>Modelled from the spec: the getter of \<open>GETTERSETTER(::Mesh*, Meshes, meshes)\<close>.\<close>

definition GetMeshes :: "addr \<Rightarrow> ('mesh, 'anim, 'w) state \<Rightarrow> addr" where
  "GetMeshes this st = meshes (objs st this)"

text \<open>Modelled from the spec: the setter of \<open>GETTERSETTER(::Mesh*, Meshes, meshes)\<close>.\<close>

definition SetMeshes ::
  "addr \<Rightarrow> addr \<Rightarrow> ('mesh, 'anim, 'w) state \<Rightarrow> ('mesh, 'anim, 'w) state" where
  "SetMeshes this v st =
     st\<lparr>objs := (objs st)(this := (objs st this)\<lparr>meshes := v\<rparr>)\<rparr>"

text \<open>Modelled from the spec: the getter of \<open>GETTERSETTER(::Material*, Materials, materials)\<close>.\<close>

definition GetMaterials ::
  "addr \<Rightarrow> ('mesh, 'anim, 'w) state \<Rightarrow> addr" where
  "GetMaterials this st = materials (objs st this)"

text \<open>Modelled from the spec: the setter of \<open>GETTERSETTER(::Material*, Materials, materials)\<close>.\<close>

definition SetMaterials ::
  "addr \<Rightarrow> addr \<Rightarrow> ('mesh, 'anim, 'w) state \<Rightarrow> ('mesh, 'anim, 'w) state" where
  "SetMaterials this v st =
     st\<lparr>objs := (objs st)(this := (objs st this)\<lparr>materials := v\<rparr>)\<rparr>"

text \<open>
  \<open>SetMeshMaterial(int*)\<close> overloads the two-argument \<open>SetMeshMaterial\<close> above; here
  it is \<open>SetMeshMaterial_ptr\<close>.
\<close>

text \<open>Modelled from the spec: the getter of \<open>GETTERSETTER(int*, MeshMaterial, meshMaterial)\<close>.\<close>

definition GetMeshMaterial ::
  "addr \<Rightarrow> ('mesh, 'anim, 'w) state \<Rightarrow> addr" where
  "GetMeshMaterial this st = meshMaterial (objs st this)"

text \<open>Modelled from the spec: the setter of \<open>GETTERSETTER(int*, MeshMaterial, meshMaterial)\<close>.\<close>

definition SetMeshMaterial_ptr ::
  "addr \<Rightarrow> addr \<Rightarrow> ('mesh, 'anim, 'w) state \<Rightarrow> ('mesh, 'anim, 'w) state" where
  "SetMeshMaterial_ptr this v st =
     st\<lparr>objs := (objs st)(this := (objs st this)\<lparr>meshMaterial := v\<rparr>)\<rparr>"

text \<open>Modelled from the spec: the getter of \<open>GETTERSETTER(int, BoneCount, boneCount)\<close>.\<close>

definition GetBoneCount ::
  "addr \<Rightarrow> ('mesh, 'anim, 'w) state \<Rightarrow> cint" where
  "GetBoneCount this st = boneCount (objs st this)"

text \<open>Modelled from the spec: the setter of \<open>GETTERSETTER(int, BoneCount, boneCount)\<close>.\<close>

definition SetBoneCount ::
  "addr \<Rightarrow> cint \<Rightarrow> ('mesh, 'anim, 'w) state \<Rightarrow> ('mesh, 'anim, 'w) state" where
  "SetBoneCount this v st =
     st\<lparr>objs := (objs st)(this := (objs st this)\<lparr>boneCount := v\<rparr>)\<rparr>"

text \<open>Modelled from the spec: the getter of \<open>GETTERSETTER(::BoneInfo*, Bones, bones)\<close>.\<close>

definition GetBones :: "addr \<Rightarrow> ('mesh, 'anim, 'w) state \<Rightarrow> addr" where
  "GetBones this st = bones (objs st this)"

text \<open>Modelled from the spec: the setter of \<open>GETTERSETTER(::BoneInfo*, Bones, bones)\<close>.\<close>

definition SetBones ::
  "addr \<Rightarrow> addr \<Rightarrow> ('mesh, 'anim, 'w) state \<Rightarrow> ('mesh, 'anim, 'w) state" where
  "SetBones this v st =
     st\<lparr>objs := (objs st)(this := (objs st this)\<lparr>bones := v\<rparr>)\<rparr>"

text \<open>Modelled from the spec: the getter of \<open>GETTERSETTER(::Transform*, BindPose, bindPose)\<close>.\<close>

definition GetBindPose ::
  "addr \<Rightarrow> ('mesh, 'anim, 'w) state \<Rightarrow> addr" where
  "GetBindPose this st = bindPose (objs st this)"

text \<open>Modelled from the spec: the setter of \<open>GETTERSETTER(::Transform*, BindPose, bindPose)\<close>.\<close>

definition SetBindPose ::
  "addr \<Rightarrow> addr \<Rightarrow> ('mesh, 'anim, 'w) state \<Rightarrow> ('mesh, 'anim, 'w) state" where
  "SetBindPose this v st =
     st\<lparr>objs := (objs st)(this := (objs st this)\<lparr>bindPose := v\<rparr>)\<rparr>"

text \<open>The nine fields of an object as its nine getters report them.\<close>

definition getters ::
  "addr \<Rightarrow> ('mesh, 'anim, 'w) state
    \<Rightarrow> Matrix \<times> cint \<times> cint \<times> addr \<times> addr \<times> addr \<times> cint \<times> addr \<times> addr" where
  "getters this st =
     (GetTransform this st, GetMeshCount this st, GetMaterialCount this st, GetMeshes this st,
      GetMaterials this st, GetMeshMaterial this st, GetBoneCount this st, GetBones this st,
      GetBindPose this st)"

section \<open>Specification-side notions\<close>

text \<open>
  The componentwise min/max merge of two boxes, as the specification words it: the smaller
  of two floats is the first one when it compares less, the larger is the first one when it
  compares greater.
\<close>

definition float_min :: "cfloat \<Rightarrow> cfloat \<Rightarrow> cfloat" where
  "float_min f g = (if float_less f g then f else g)"

definition float_max :: "cfloat \<Rightarrow> cfloat \<Rightarrow> cfloat" where
  "float_max f g = (if float_less g f then f else g)"

definition merge_boxes :: "BoundingBox \<Rightarrow> BoundingBox \<Rightarrow> BoundingBox" where
  "merge_boxes acc box =
     \<lparr>min_bb = \<lparr>x = float_min (x (min_bb acc)) (x (min_bb box)),
                y = float_min (y (min_bb acc)) (y (min_bb box)),
                z = float_min (z (min_bb acc)) (z (min_bb box))\<rparr>,
      max_bb = \<lparr>x = float_max (x (max_bb acc)) (x (max_bb box)),
                y = float_max (y (max_bb acc)) (y (max_bb box)),
                z = float_max (z (max_bb acc)) (z (max_bb box))\<rparr>\<rparr>"

text \<open>The left fold of the merge over a non-empty list of boxes, from its first box.\<close>

definition merged_bounds :: "BoundingBox list \<Rightarrow> BoundingBox" where
  "merged_bounds boxes = foldl merge_boxes (hd boxes) (tl boxes)"

text \<open>The cells \<open>meshes[0..meshCount-1]\<close> of a model, and the per-mesh transformed boxes.\<close>

definition mesh_cells :: "('mesh, 'w) world \<Rightarrow> Model \<Rightarrow> 'mesh option list" where
  "mesh_cells w m = map (mesh_at w (meshes m)) [0..<nat (sint (meshCount m))]"

definition mesh_boxes ::
  "('mesh, 'anim, 'rad, 'w) engine \<Rightarrow> ('mesh, 'w) world \<Rightarrow> Model \<Rightarrow> 'mesh list
    \<Rightarrow> BoundingBox list" where
  "mesh_boxes eng w m ms =
     map (\<lambda>mesh. Mesh_GetTransformedBoundingBox eng w mesh (transform m)) ms"

text \<open>
  A float of a list that no float of the list is less than (is greater than): the minimum
  (maximum) of the list in the order of the floats.
\<close>

definition is_float_minimum :: "cfloat \<Rightarrow> cfloat list \<Rightarrow> bool" where
  "is_float_minimum r fs \<longleftrightarrow> r \<in> set fs \<and> list_all (\<lambda>f. \<not> float_less f r) fs"

definition is_float_maximum :: "cfloat \<Rightarrow> cfloat list \<Rightarrow> bool" where
  "is_float_maximum r fs \<longleftrightarrow> r \<in> set fs \<and> list_all (\<lambda>f. \<not> float_less r f) fs"

definition box_has_nan :: "BoundingBox \<Rightarrow> bool" where
  "box_has_nan box \<longleftrightarrow>
     float_is_nan (x (min_bb box)) \<or> float_is_nan (y (min_bb box)) \<or>
     float_is_nan (z (min_bb box)) \<or> float_is_nan (x (max_bb box)) \<or>
     float_is_nan (y (max_bb box)) \<or> float_is_nan (z (max_bb box))"

definition is_componentwise_hull :: "BoundingBox \<Rightarrow> BoundingBox list \<Rightarrow> bool" where
  "is_componentwise_hull r boxes \<longleftrightarrow>
     is_float_minimum (x (min_bb r)) (map (\<lambda>box. x (min_bb box)) boxes) \<and>
     is_float_minimum (y (min_bb r)) (map (\<lambda>box. y (min_bb box)) boxes) \<and>
     is_float_minimum (z (min_bb r)) (map (\<lambda>box. z (min_bb box)) boxes) \<and>
     is_float_maximum (x (max_bb r)) (map (\<lambda>box. x (max_bb box)) boxes) \<and>
     is_float_maximum (y (max_bb r)) (map (\<lambda>box. y (max_bb box)) boxes) \<and>
     is_float_maximum (z (max_bb r)) (map (\<lambda>box. z (max_bb box)) boxes)"

text \<open>
  What the engine's load call returns for the C string or the mesh it is given, and whether
  the engine reports that model ready in the world the load leaves behind.
\<close>

definition file_model ::
  "('mesh, 'anim, 'rad, 'w) engine \<Rightarrow> string \<Rightarrow> ('mesh, 'anim, 'w) state \<Rightarrow> Model" where
  "file_model eng name st = fst (raylib_LoadModel eng name (world st))"

definition file_ready ::
  "('mesh, 'anim, 'rad, 'w) engine \<Rightarrow> string \<Rightarrow> ('mesh, 'anim, 'w) state \<Rightarrow> bool" where
  "file_ready eng name st =
     fst (raylib_IsModelReady eng (fst (raylib_LoadModel eng name (world st)))
            (snd (raylib_LoadModel eng name (world st))))"

definition mesh_model ::
  "('mesh, 'anim, 'rad, 'w) engine \<Rightarrow> 'mesh \<Rightarrow> ('mesh, 'anim, 'w) state \<Rightarrow> Model" where
  "mesh_model eng mesh st = fst (raylib_LoadModelFromMesh eng mesh (world st))"

definition mesh_ready ::
  "('mesh, 'anim, 'rad, 'w) engine \<Rightarrow> 'mesh \<Rightarrow> ('mesh, 'anim, 'w) state \<Rightarrow> bool" where
  "mesh_ready eng mesh st =
     fst (raylib_IsModelReady eng (fst (raylib_LoadModelFromMesh eng mesh (world st)))
            (snd (raylib_LoadModelFromMesh eng mesh (world st))))"

text \<open>The number of \<open>::UnloadModel\<close> calls in a log.\<close>

fun is_unload_call :: "('mesh, 'anim) engine_call \<Rightarrow> bool" where
  "is_unload_call (Call_UnloadModel m) = True"
| "is_unload_call c = False"

definition unload_count :: "('mesh, 'anim, 'w) state \<Rightarrow> nat" where
  "unload_count st = length (filter is_unload_call (calls st))"

section \<open>A small engine and scene for concrete evaluation\<close>

text \<open>
  Meshes and animations are numbered; mesh \<open>k\<close> has the box \<open>scene_box k\<close>. The floats are
  written as bit patterns: \<open>0x3F800000\<close> is 1.0, \<open>0x40000000\<close> is 2.0, \<open>0x40400000\<close> is
  3.0, \<open>0x3F000000\<close> is 0.5, \<open>0xBF800000\<close> is -1.0, \<open>0xC0000000\<close> is -2.0 and
  \<open>0x80000000\<close> is -0.0.
\<close>

definition scene_box :: "nat \<Rightarrow> BoundingBox" where
  "scene_box k =
     (if k = 0 then
        \<lparr>min_bb = \<lparr>x = 0x3F800000, y = 0xBF800000, z = 0\<rparr>,
         max_bb = \<lparr>x = 0x40000000, y = 0x40000000, z = 0x40000000\<rparr>\<rparr>
      else if k = 1 then
        \<lparr>min_bb = \<lparr>x = 0xC0000000, y = 0x3F000000, z = 0\<rparr>,
         max_bb = \<lparr>x = 0x3F800000, y = 0x40400000, z = 0x40000000\<rparr>\<rparr>
      else
        \<lparr>min_bb = \<lparr>x = 0x3F000000, y = 0x3F800000, z = 0x80000000\<rparr>,
         max_bb = \<lparr>x = 0x40400000, y = 0x3F800000, z = 0x3F000000\<rparr>\<rparr>)"

definition scene_model :: Model where
  "scene_model =
     \<lparr>transform = Matrix [], meshCount = 3, materialCount = 1, meshes = 10, materials = 20,
      meshMaterial = 30, boneCount = 0, bones = nullptr, bindPose = nullptr\<rparr>"

definition blank_model :: Model where
  "blank_model =
     \<lparr>transform = Matrix [], meshCount = 0, materialCount = 0, meshes = nullptr,
      materials = nullptr, meshMaterial = nullptr, boneCount = 0, bones = nullptr,
      bindPose = nullptr\<rparr>"

definition scene_world :: "(nat, nat) world" where
  "scene_world =
     \<lparr>mesh_mem = (\<lambda>a. if 10 \<le> a \<and> a < 13 then Some (a - 10) else None), ext = 0\<rparr>"

definition scene_engine :: "(nat, nat, cfloat, nat) engine" where
  "scene_engine =
     \<lparr>raylib_LoadModel =
        (\<lambda>name w. (if name = ''ship.obj'' then scene_model else blank_model, w)),
      raylib_LoadModelFromMesh = (\<lambda>mesh w. (scene_model\<lparr>meshCount := 1\<rparr>, w)),
      raylib_UnloadModel = (\<lambda>m w. w\<lparr>mesh_mem := (\<lambda>a. None)\<rparr>),
      raylib_IsModelReady =
        (\<lambda>m w. (meshes m \<noteq> nullptr \<and> materials m \<noteq> nullptr \<and> meshMaterial m \<noteq> nullptr
                 \<and> 0 <s meshCount m \<and> 0 <s materialCount m, w)),
      raylib_GetModelBoundingBox = (\<lambda>m w. (scene_box (nat (sint (meshCount m))), w)),
      raylib_SetModelMeshMaterial = (\<lambda>m meshId materialId w. (m, w\<lparr>ext := ext w + 1\<rparr>)),
      raylib_UpdateModelAnimation = (\<lambda>m anim frame w. w\<lparr>ext := ext w + 1\<rparr>),
      raylib_IsModelAnimationValid = (\<lambda>m anim w. (boneCount m = 0, w)),
      raylib_DrawModel = (\<lambda>m position scale tint w. w\<lparr>ext := ext w + 1\<rparr>),
      raylib_DrawModelEx = (\<lambda>m position axis angle scale tint w. w\<lparr>ext := ext w + 1\<rparr>),
      raylib_DrawModelWires = (\<lambda>m position scale tint w. w\<lparr>ext := ext w + 1\<rparr>),
      raylib_DrawModelWiresEx = (\<lambda>m position axis angle scale tint w. w\<lparr>ext := ext w + 1\<rparr>),
      Mesh_GetTransformedBoundingBox = (\<lambda>w mesh t. scene_box mesh),
      Radian_float = (\<lambda>r. r)\<rparr>"

text \<open>
  A second engine whose mesh boxes differ in the \<open>x\<close> of \<open>min\<close> only: 1.0 for mesh 0, a NaN
  (\<open>0x7FC00000\<close>) for mesh 1 and 2.0 for every other mesh.
\<close>

definition nan_box :: "nat \<Rightarrow> BoundingBox" where
  "nan_box k =
     \<lparr>min_bb = \<lparr>x = (if k = 0 then 0x3F800000 else if k = 1 then 0x7FC00000 else 0x40000000),
                y = 0, z = 0\<rparr>,
      max_bb = \<lparr>x = 0x40000000, y = 0, z = 0\<rparr>\<rparr>"

definition nan_engine :: "(nat, nat, cfloat, nat) engine" where
  "nan_engine = scene_engine\<lparr>Mesh_GetTransformedBoundingBox := (\<lambda>w mesh t. nan_box mesh)\<rparr>"

text \<open>Object 1 holds the scene's model, every other address a blank one.\<close>

definition scene_state :: "(nat, nat, nat) state" where
  "scene_state =
     \<lparr>objs = (\<lambda>a. if a = 1 then scene_model else blank_model), world = scene_world,
      calls = []\<rparr>"

section \<open>The bounding box of all meshes\<close>

lemma sint_succ_below:
  fixes i c :: cint
  assumes "i <s c"
  shows "sint (i + 1) = sint i + 1"
proof -
  have "sint c < 2 ^ 31" using sint_lt [of c] by simp
  moreover have "- (2 ^ 31) \<le> sint i" using sint_ge [of i] by simp
  moreover have "sint i < sint c" using assms by (simp add: word_sless_alt)
  ultimately show ?thesis
    by (simp add: sint_word_ariths signed_take_bit_int_eq_self)
qed

lemma loop_body_merge: "loop_body acc box = merge_boxes acc box"
  by (simp add: loop_body_def merge_boxes_def float_min_def float_max_def float_greater_def
      Let_def)

lemma mesh_cells_length:
  assumes "mesh_cells w m = map Some ms"
  shows "length ms = nat (sint (meshCount m))"
proof -
  have "length (mesh_cells w m) = length (map Some ms)" using assms by simp
  then show ?thesis by (simp add: mesh_cells_def)
qed

lemma mesh_cells_nth:
  assumes "mesh_cells w m = map Some ms" and "k < nat (sint (meshCount m))"
  shows "mesh_at w (meshes m) k = Some (ms ! k)"
proof -
  have "mesh_cells w m ! k = map Some ms ! k" using assms(1) by simp
  moreover have "k < length ms" using assms by (simp add: mesh_cells_length)
  ultimately show ?thesis using assms(2) by (simp add: mesh_cells_def)
qed

lemma bounds_loop_fold:
  assumes cells: "mesh_cells w m = map Some ms"
    and nonneg: "0 \<le> sint i"
  shows "bounds_loop eng w m i acc
         = Inr (foldl merge_boxes acc (drop (nat (sint i)) (mesh_boxes eng w m ms)))"
  using cells nonneg
proof (induction eng w m i acc rule: bounds_loop.induct)
  case (1 eng w m i acc)
  let ?n = "nat (sint (meshCount m))"
  let ?k = "nat (sint i)"
  let ?boxes = "mesh_boxes eng w m ms"
  have len: "length ms = ?n" using "1.prems"(1) by (rule mesh_cells_length)
  show ?case
  proof (cases "i <s meshCount m")
    case True
    then have k: "?k < ?n" using "1.prems"(2) by (simp add: word_sless_alt)
    have cell: "mesh_at w (meshes m) ?k = Some (ms ! ?k)"
      using "1.prems"(1) k by (rule mesh_cells_nth)
    let ?box = "Mesh_GetTransformedBoundingBox eng w (ms ! ?k) (transform m)"
    have succ: "sint (i + 1) = sint i + 1" using True by (rule sint_succ_below)
    then have next_k: "nat (sint (i + 1)) = Suc ?k" using "1.prems"(2) by simp
    have "bounds_loop eng w m (i + 1) (loop_body acc ?box)
          = Inr (foldl merge_boxes (loop_body acc ?box) (drop (nat (sint (i + 1))) ?boxes))"
      using "1.IH" [OF True cell "1.prems"(1)] succ "1.prems"(2) by simp
    moreover have "drop ?k ?boxes = ?box # drop (Suc ?k) ?boxes"
      using k len by (simp add: mesh_boxes_def Cons_nth_drop_Suc [symmetric])
    ultimately show ?thesis
      using True cell next_k by (simp add: bounds_loop.simps [of eng w m i acc] loop_body_merge)
  next
    case False
    then have "?n \<le> ?k" by (simp add: word_sless_alt)
    then have "drop ?k ?boxes = []" using len by (simp add: mesh_boxes_def)
    then show ?thesis using False by (simp add: bounds_loop.simps [of eng w m i acc])
  qed
qed

lemma GetTransformedBoundingBox_fold:
  assumes count: "1 \<le>s meshCount (objs st this)"
    and cells: "mesh_cells (world st) (objs st this) = map Some ms"
  shows "GetTransformedBoundingBox eng this st
         = Inr (merged_bounds (mesh_boxes eng (world st) (objs st this) ms), st)"
proof -
  let ?m = "objs st this"
  let ?boxes = "mesh_boxes eng (world st) ?m ms"
  have pos: "0 <s meshCount ?m" and n: "0 < nat (sint (meshCount ?m))"
    using count by (simp_all add: word_sle_eq word_sless_alt)
  have len: "length ms = nat (sint (meshCount ?m))" using cells by (rule mesh_cells_length)
  have first: "mesh_at (world st) (meshes ?m) 0 = Some (ms ! 0)"
    using cells n by (rule mesh_cells_nth)
  have "(0::int) \<le> sint (1::cint)" by simp
  with cells have loop: "bounds_loop eng (world st) ?m 1 acc
        = Inr (foldl merge_boxes acc (drop (nat (sint (1::cint))) ?boxes))" for acc
    by (rule bounds_loop_fold)
  have "ms \<noteq> []" using len n by auto
  then have "hd ?boxes = Mesh_GetTransformedBoundingBox eng (world st) (ms ! 0) (transform ?m)"
    and "drop (nat (sint (1::cint))) ?boxes = tl ?boxes"
    by (simp_all add: mesh_boxes_def hd_map hd_conv_nth drop_Suc)
  then show ?thesis
    using pos first loop by (simp add: GetTransformedBoundingBox_def merged_bounds_def Let_def)
qed


lemma float_less_key:
  "\<not> float_is_nan f \<Longrightarrow> \<not> float_is_nan g \<Longrightarrow> float_less f g \<longleftrightarrow> float_key f < float_key g"
  by (simp add: float_less_def)

lemma foldl_float_min_least:
  assumes "\<not> float_is_nan c" and "list_all (\<lambda>f. \<not> float_is_nan f) fs"
  shows "foldl float_min c fs \<in> set (c # fs) \<and>
         (\<forall>f \<in> set (c # fs). float_key (foldl float_min c fs) \<le> float_key f)"
  using assms
proof (induction fs arbitrary: c)
  case Nil
  then show ?case by simp
next
  case (Cons g fs)
  let ?c = "float_min c g"
  have g: "\<not> float_is_nan g" and rest: "list_all (\<lambda>f. \<not> float_is_nan f) fs"
    using Cons.prems(2) by simp_all
  have c': "\<not> float_is_nan ?c" using Cons.prems(1) g by (simp add: float_min_def)
  have key: "float_key ?c \<le> float_key c" "float_key ?c \<le> float_key g"
    using Cons.prems(1) g by (simp_all add: float_min_def float_less_key)
  have mem: "?c = c \<or> ?c = g" by (simp add: float_min_def)
  from Cons.IH [OF c' rest]
  have ih: "foldl float_min ?c fs \<in> set (?c # fs)"
    "\<forall>f \<in> set (?c # fs). float_key (foldl float_min ?c fs) \<le> float_key f"
    by simp_all
  from ih(2) have "float_key (foldl float_min ?c fs) \<le> float_key ?c" by simp
  with key have "float_key (foldl float_min ?c fs) \<le> float_key c"
    "float_key (foldl float_min ?c fs) \<le> float_key g" by simp_all
  moreover have "foldl float_min ?c fs \<in> set (c # g # fs)" using ih(1) mem by auto
  ultimately show ?case using ih(2) by simp
qed

lemma foldl_float_max_greatest:
  assumes "\<not> float_is_nan c" and "list_all (\<lambda>f. \<not> float_is_nan f) fs"
  shows "foldl float_max c fs \<in> set (c # fs) \<and>
         (\<forall>f \<in> set (c # fs). float_key f \<le> float_key (foldl float_max c fs))"
  using assms
proof (induction fs arbitrary: c)
  case Nil
  then show ?case by simp
next
  case (Cons g fs)
  let ?c = "float_max c g"
  have g: "\<not> float_is_nan g" and rest: "list_all (\<lambda>f. \<not> float_is_nan f) fs"
    using Cons.prems(2) by simp_all
  have c': "\<not> float_is_nan ?c" using Cons.prems(1) g by (simp add: float_max_def)
  have key: "float_key c \<le> float_key ?c" "float_key g \<le> float_key ?c"
    using Cons.prems(1) g by (simp_all add: float_max_def float_less_key)
  have mem: "?c = c \<or> ?c = g" by (simp add: float_max_def)
  from Cons.IH [OF c' rest]
  have ih: "foldl float_max ?c fs \<in> set (?c # fs)"
    "\<forall>f \<in> set (?c # fs). float_key f \<le> float_key (foldl float_max ?c fs)"
    by simp_all
  from ih(2) have "float_key ?c \<le> float_key (foldl float_max ?c fs)" by simp
  with key have "float_key c \<le> float_key (foldl float_max ?c fs)"
    "float_key g \<le> float_key (foldl float_max ?c fs)" by simp_all
  moreover have "foldl float_max ?c fs \<in> set (c # g # fs)" using ih(1) mem by auto
  ultimately show ?case using ih(2) by simp
qed

lemma is_float_minimum_foldl:
  assumes "list_all (\<lambda>f. \<not> float_is_nan f) (c # fs)"
  shows "is_float_minimum (foldl float_min c fs) (c # fs)"
proof -
  have c: "\<not> float_is_nan c" and fs: "list_all (\<lambda>f. \<not> float_is_nan f) fs"
    using assms by simp_all
  from foldl_float_min_least [OF c fs]
  have mem: "foldl float_min c fs \<in> set (c # fs)"
    and le: "\<forall>f \<in> set (c # fs). float_key (foldl float_min c fs) \<le> float_key f"
    by blast+
  have "\<not> float_less f (foldl float_min c fs)" if "f \<in> set (c # fs)" for f
    using le that by (auto simp: float_less_def)
  then show ?thesis using mem unfolding is_float_minimum_def list_all_iff by blast
qed

lemma is_float_maximum_foldl:
  assumes "list_all (\<lambda>f. \<not> float_is_nan f) (c # fs)"
  shows "is_float_maximum (foldl float_max c fs) (c # fs)"
proof -
  have c: "\<not> float_is_nan c" and fs: "list_all (\<lambda>f. \<not> float_is_nan f) fs"
    using assms by simp_all
  from foldl_float_max_greatest [OF c fs]
  have mem: "foldl float_max c fs \<in> set (c # fs)"
    and le: "\<forall>f \<in> set (c # fs). float_key f \<le> float_key (foldl float_max c fs)"
    by blast+
  have "\<not> float_less (foldl float_max c fs) f" if "f \<in> set (c # fs)" for f
    using le that by (auto simp: float_less_def)
  then show ?thesis using mem unfolding is_float_maximum_def list_all_iff by blast
qed

lemma foldl_merge_components:
  "x (min_bb (foldl merge_boxes acc bs)) = foldl float_min (x (min_bb acc)) (map (\<lambda>box. x (min_bb box)) bs)"
  "y (min_bb (foldl merge_boxes acc bs)) = foldl float_min (y (min_bb acc)) (map (\<lambda>box. y (min_bb box)) bs)"
  "z (min_bb (foldl merge_boxes acc bs)) = foldl float_min (z (min_bb acc)) (map (\<lambda>box. z (min_bb box)) bs)"
  "x (max_bb (foldl merge_boxes acc bs)) = foldl float_max (x (max_bb acc)) (map (\<lambda>box. x (max_bb box)) bs)"
  "y (max_bb (foldl merge_boxes acc bs)) = foldl float_max (y (max_bb acc)) (map (\<lambda>box. y (max_bb box)) bs)"
  "z (max_bb (foldl merge_boxes acc bs)) = foldl float_max (z (max_bb acc)) (map (\<lambda>box. z (max_bb box)) bs)"
  by (induction bs arbitrary: acc; simp add: merge_boxes_def)+

lemma merged_bounds_hull:
  assumes "boxes \<noteq> []" and "list_all (\<lambda>box. \<not> box_has_nan box) boxes"
  shows "is_componentwise_hull (merged_bounds boxes) boxes"
proof -
  obtain b bs where boxes: "boxes = b # bs" using assms(1) by (cases boxes) auto
  have nan: "list_all (\<lambda>f. \<not> float_is_nan f) (map sel (b # bs))"
    if "\<And>box. \<not> box_has_nan box \<Longrightarrow> \<not> float_is_nan (sel box)" for sel
    using assms(2) that unfolding boxes list_all_iff by auto
  have "is_float_minimum (x (min_bb (merged_bounds boxes))) (map (\<lambda>box. x (min_bb box)) boxes)"
    using is_float_minimum_foldl [of "x (min_bb b)" "map (\<lambda>box. x (min_bb box)) bs"]
      nan [of "\<lambda>box. x (min_bb box)"]
    by (simp add: boxes merged_bounds_def foldl_merge_components box_has_nan_def)
  moreover
  have "is_float_minimum (y (min_bb (merged_bounds boxes))) (map (\<lambda>box. y (min_bb box)) boxes)"
    using is_float_minimum_foldl [of "y (min_bb b)" "map (\<lambda>box. y (min_bb box)) bs"]
      nan [of "\<lambda>box. y (min_bb box)"]
    by (simp add: boxes merged_bounds_def foldl_merge_components box_has_nan_def)
  moreover
  have "is_float_minimum (z (min_bb (merged_bounds boxes))) (map (\<lambda>box. z (min_bb box)) boxes)"
    using is_float_minimum_foldl [of "z (min_bb b)" "map (\<lambda>box. z (min_bb box)) bs"]
      nan [of "\<lambda>box. z (min_bb box)"]
    by (simp add: boxes merged_bounds_def foldl_merge_components box_has_nan_def)
  moreover
  have "is_float_maximum (x (max_bb (merged_bounds boxes))) (map (\<lambda>box. x (max_bb box)) boxes)"
    using is_float_maximum_foldl [of "x (max_bb b)" "map (\<lambda>box. x (max_bb box)) bs"]
      nan [of "\<lambda>box. x (max_bb box)"]
    by (simp add: boxes merged_bounds_def foldl_merge_components box_has_nan_def)
  moreover
  have "is_float_maximum (y (max_bb (merged_bounds boxes))) (map (\<lambda>box. y (max_bb box)) boxes)"
    using is_float_maximum_foldl [of "y (max_bb b)" "map (\<lambda>box. y (max_bb box)) bs"]
      nan [of "\<lambda>box. y (max_bb box)"]
    by (simp add: boxes merged_bounds_def foldl_merge_components box_has_nan_def)
  moreover
  have "is_float_maximum (z (max_bb (merged_bounds boxes))) (map (\<lambda>box. z (max_bb box)) boxes)"
    using is_float_maximum_foldl [of "z (max_bb b)" "map (\<lambda>box. z (max_bb box)) bs"]
      nan [of "\<lambda>box. z (max_bb box)"]
    by (simp add: boxes merged_bounds_def foldl_merge_components box_has_nan_def)
  ultimately show ?thesis by (simp add: is_componentwise_hull_def)
qed

text \<open>
  Claim C1, as amended. For a model with \<open>meshCount \<ge> 1\<close> whose cells
  \<open>meshes[0..meshCount-1]\<close> hold the meshes \<open>ms\<close>, \<open>GetTransformedBoundingBox\<close> returns the
  left fold, starting from the box of \<open>meshes[0]\<close>, of the merge that keeps a coordinate of
  the accumulated box when it compares less (for \<open>min\<close>) or greater (for \<open>max\<close>) than the
  next box's and takes the next box's otherwise, and leaves the state as it was. When no
  coordinate of the per-mesh boxes is a NaN, each coordinate of the returned \<open>min\<close> is the
  minimum, and each coordinate of the returned \<open>max\<close> the maximum, of that coordinate over
  the boxes.
\<close>

theorem GetTransformedBoundingBox_merges_mesh_boxes:
  assumes "1 \<le>s meshCount (objs st this)"
    and "mesh_cells (world st) (objs st this) = map Some ms"
  shows "GetTransformedBoundingBox eng this st
           = Inr (merged_bounds (mesh_boxes eng (world st) (objs st this) ms), st)
         \<and> (list_all (\<lambda>box. \<not> box_has_nan box) (mesh_boxes eng (world st) (objs st this) ms)
            \<longrightarrow> is_componentwise_hull
                  (merged_bounds (mesh_boxes eng (world st) (objs st this) ms))
                  (mesh_boxes eng (world st) (objs st this) ms))"
proof -
  have "length ms = nat (sint (meshCount (objs st this)))"
    using assms(2) by (rule mesh_cells_length)
  moreover have "0 < sint (meshCount (objs st this))"
    using assms(1) by (simp add: word_sle_eq)
  ultimately have "mesh_boxes eng (world st) (objs st this) ms \<noteq> []"
    by (auto simp: mesh_boxes_def)
  then show ?thesis
    using GetTransformedBoundingBox_fold [OF assms] merged_bounds_hull by blast
qed

theorem GetTransformedBoundingBox_merges_mesh_boxes_witness:
  "1 \<le>s meshCount (objs scene_state 1)
   \<and> mesh_cells (world scene_state) (objs scene_state 1) = map Some [0, 1, 2]
   \<and> list_all (\<lambda>box. \<not> box_has_nan box) (map scene_box [0, 1, 2])
   \<and> GetTransformedBoundingBox scene_engine 1 scene_state
       = Inr (\<lparr>min_bb = \<lparr>x = 0xC0000000, y = 0xBF800000, z = 0x80000000\<rparr>,
               max_bb = \<lparr>x = 0x40400000, y = 0x40400000, z = 0x40000000\<rparr>\<rparr>, scene_state)
   \<and> is_componentwise_hull
       \<lparr>min_bb = \<lparr>x = 0xC0000000, y = 0xBF800000, z = 0x80000000\<rparr>,
        max_bb = \<lparr>x = 0x40400000, y = 0x40400000, z = 0x40000000\<rparr>\<rparr>
       (map scene_box [0, 1, 2])"
proof -
  have count: "1 \<le>s meshCount (objs scene_state 1)"
    by (simp add: scene_state_def scene_model_def word_sle_eq)
  have cells: "mesh_cells (world scene_state) (objs scene_state 1) = map Some [0, 1, 2]"
    by (simp add: mesh_cells_def scene_state_def scene_world_def scene_model_def mesh_at_def
        nullptr_def upt_rec)
  have boxes: "mesh_boxes scene_engine (world scene_state) (objs scene_state 1) [0, 1, 2]
               = map scene_box [0, 1, 2]"
    by (simp add: mesh_boxes_def scene_engine_def)
  have finite: "list_all (\<lambda>box. \<not> box_has_nan box) (map scene_box [0, 1, 2])"
    by (simp add: scene_box_def box_has_nan_def float_is_nan_def)
  have merged: "merged_bounds (map scene_box [0, 1, 2])
                = \<lparr>min_bb = \<lparr>x = 0xC0000000, y = 0xBF800000, z = 0x80000000\<rparr>,
                   max_bb = \<lparr>x = 0x40400000, y = 0x40400000, z = 0x40000000\<rparr>\<rparr>"
    by (simp add: merged_bounds_def merge_boxes_def scene_box_def float_min_def float_max_def
        float_less_def float_is_nan_def float_key_def)
  note GetTransformedBoundingBox_merges_mesh_boxes
    [OF count cells, of scene_engine, unfolded boxes merged]
  with count cells finite show ?thesis by blast
qed

text \<open>
  Claim C1 as stated, without the condition on NaNs, fails: with the \<open>x\<close> of \<open>min\<close> being
  1.0, NaN and 2.0 in the three boxes, \<open>1.0 < NaN\<close> is false and the loop takes the NaN, then
  \<open>NaN < 2.0\<close> is false and it takes 2.0. The returned \<open>min\<close> has \<open>x\<close> 2.0 although the
  box of mesh 0 has 1.0 there, which is less.
\<close>

theorem GetTransformedBoundingBox_nan_counterexample:
  "1 \<le>s meshCount (objs scene_state 1)
   \<and> mesh_cells (world scene_state) (objs scene_state 1) = map Some [0, 1, 2]
   \<and> GetTransformedBoundingBox nan_engine 1 scene_state
       = Inr (\<lparr>min_bb = \<lparr>x = 0x40000000, y = 0, z = 0\<rparr>,
               max_bb = \<lparr>x = 0x40000000, y = 0, z = 0\<rparr>\<rparr>, scene_state)
   \<and> x (min_bb (nan_box 0)) = 0x3F800000
   \<and> float_less 0x3F800000 0x40000000
   \<and> \<not> is_componentwise_hull
         \<lparr>min_bb = \<lparr>x = 0x40000000, y = 0, z = 0\<rparr>,
          max_bb = \<lparr>x = 0x40000000, y = 0, z = 0\<rparr>\<rparr>
         (mesh_boxes nan_engine (world scene_state) (objs scene_state 1) [0, 1, 2])"
proof -
  have count: "1 \<le>s meshCount (objs scene_state 1)"
    by (simp add: scene_state_def scene_model_def word_sle_eq)
  have cells: "mesh_cells (world scene_state) (objs scene_state 1) = map Some [0, 1, 2]"
    by (simp add: mesh_cells_def scene_state_def scene_world_def scene_model_def mesh_at_def
        nullptr_def upt_rec)
  have boxes: "mesh_boxes nan_engine (world scene_state) (objs scene_state 1) [0, 1, 2]
               = map nan_box [0, 1, 2]"
    by (simp add: mesh_boxes_def nan_engine_def)
  have less: "float_less 0x3F800000 0x40000000"
    by (simp add: float_less_def float_is_nan_def float_key_def)
  have merged: "merged_bounds (map nan_box [0, 1, 2])
                = \<lparr>min_bb = \<lparr>x = 0x40000000, y = 0, z = 0\<rparr>,
                   max_bb = \<lparr>x = 0x40000000, y = 0, z = 0\<rparr>\<rparr>"
    by (simp add: merged_bounds_def merge_boxes_def nan_box_def float_min_def float_max_def
        float_less_def float_is_nan_def float_key_def)
  have returned: "GetTransformedBoundingBox nan_engine 1 scene_state
       = Inr (\<lparr>min_bb = \<lparr>x = 0x40000000, y = 0, z = 0\<rparr>,
               max_bb = \<lparr>x = 0x40000000, y = 0, z = 0\<rparr>\<rparr>, scene_state)"
    using GetTransformedBoundingBox_fold [OF count cells, of nan_engine]
    unfolding boxes merged .
  have first: "x (min_bb (nan_box 0)) = 0x3F800000" by (simp add: nan_box_def)
  have "\<not> is_float_minimum 0x40000000 (map (\<lambda>box. x (min_bb box)) (map nan_box [0, 1, 2]))"
    using less by (simp add: is_float_minimum_def nan_box_def)
  then have "\<not> is_componentwise_hull
         \<lparr>min_bb = \<lparr>x = 0x40000000, y = 0, z = 0\<rparr>,
          max_bb = \<lparr>x = 0x40000000, y = 0, z = 0\<rparr>\<rparr>
         (mesh_boxes nan_engine (world scene_state) (objs scene_state 1) [0, 1, 2])"
    unfolding boxes by (simp add: is_componentwise_hull_def)
  with count cells returned first less show ?thesis by blast
qed

text \<open>
  Claim C10. For a model with \<open>meshCount \<le> 0\<close>, \<open>GetTransformedBoundingBox\<close> returns the
  box whose \<open>min\<close> and \<open>max\<close> are both (0, 0, 0), whatever the mesh memory holds: also when
  no cell holds a mesh, where any read of \<open>meshes\<close> would be a fault.
\<close>

theorem GetTransformedBoundingBox_without_meshes:
  assumes "meshCount (objs st this) \<le>s 0"
  shows "\<forall>mem. GetTransformedBoundingBox eng this (st\<lparr>world := (world st)\<lparr>mesh_mem := mem\<rparr>\<rparr>)
           = Inr (\<lparr>min_bb = \<lparr>x = 0, y = 0, z = 0\<rparr>, max_bb = \<lparr>x = 0, y = 0, z = 0\<rparr>\<rparr>,
                  st\<lparr>world := (world st)\<lparr>mesh_mem := mem\<rparr>\<rparr>)"
proof -
  have "\<not> 0 <s meshCount (objs st this)"
    using assms by (simp add: word_sle_eq word_sless_alt)
  then show ?thesis
    by (simp add: GetTransformedBoundingBox_def BoundingBox_zero_def Let_def)
qed

theorem GetTransformedBoundingBox_without_meshes_witness:
  "meshCount (objs scene_state 2) \<le>s 0
   \<and> GetTransformedBoundingBox scene_engine 2
        (scene_state\<lparr>world := (world scene_state)\<lparr>mesh_mem := (\<lambda>a. None)\<rparr>\<rparr>)
      = Inr (\<lparr>min_bb = \<lparr>x = 0, y = 0, z = 0\<rparr>, max_bb = \<lparr>x = 0, y = 0, z = 0\<rparr>\<rparr>,
             scene_state\<lparr>world := (world scene_state)\<lparr>mesh_mem := (\<lambda>a. None)\<rparr>\<rparr>)"
proof -
  have count: "meshCount (objs scene_state 2) \<le>s 0"
    by (simp add: scene_state_def blank_model_def word_sle_eq)
  from GetTransformedBoundingBox_without_meshes [OF count, of scene_engine] count
  show ?thesis by blast
qed

section \<open>Loading\<close>

lemma nine_fields_assigned:
  fixes r model :: Model
  shows "r\<lparr>transform := transform model, meshCount := meshCount model,
           materialCount := materialCount model, meshes := meshes model,
           materials := materials model, meshMaterial := meshMaterial model,
           boneCount := boneCount model, bones := bones model,
           bindPose := bindPose model\<rparr> = model"
  by (rule Model.equality) simp_all

lemma set_Model_eq: "set_Model this model st = st\<lparr>objs := (objs st)(this := model)\<rparr>"
  unfolding set_Model_def nine_fields_assigned ..

lemma Load_file_cases:
  assumes "c_str fileName = Some name" and "to_string fileName = Some text"
  shows "Load_file eng this fileName st =
     Inr (if file_ready eng name st
      then Inr \<lparr>objs = (objs st)(this := file_model eng name st),
                world = snd (raylib_IsModelReady eng (file_model eng name st)
                               (snd (raylib_LoadModel eng name (world st)))),
                calls = calls st @ [Call_LoadModel name,
                                    Call_IsModelReady (file_model eng name st)]\<rparr>
      else Inl (RaylibException (''Failed to load Model from '' @ text),
               \<lparr>objs = (objs st)(this := file_model eng name st),
                world = snd (raylib_IsModelReady eng (file_model eng name st)
                               (snd (raylib_LoadModel eng name (world st)))),
                calls = calls st @ [Call_LoadModel name,
                                    Call_IsModelReady (file_model eng name st)]\<rparr>))"
  using assms
  by (simp add: Load_file_def IsReady_def file_model_def file_ready_def set_Model_eq Let_def
      case_prod_beta)

lemma Load_mesh_cases:
  "Load_mesh eng this mesh st =
     (if mesh_ready eng mesh st
      then Inr \<lparr>objs = (objs st)(this := mesh_model eng mesh st),
                world = snd (raylib_IsModelReady eng (mesh_model eng mesh st)
                               (snd (raylib_LoadModelFromMesh eng mesh (world st)))),
                calls = calls st @ [Call_LoadModelFromMesh mesh,
                                    Call_IsModelReady (mesh_model eng mesh st)]\<rparr>
      else Inl (RaylibException ''Failed to load Model from Mesh'',
               \<lparr>objs = (objs st)(this := mesh_model eng mesh st),
                world = snd (raylib_IsModelReady eng (mesh_model eng mesh st)
                               (snd (raylib_LoadModelFromMesh eng mesh (world st)))),
                calls = calls st @ [Call_LoadModelFromMesh mesh,
                                    Call_IsModelReady (mesh_model eng mesh st)]\<rparr>))"
  by (simp add: Load_mesh_def IsReady_def mesh_model_def mesh_ready_def set_Model_eq Let_def
      case_prod_beta)

text \<open>
  Claim C2. Where \<open>fileName.data()\<close> designates the C string \<open>name\<close> and the view holds the
  characters \<open>text\<close>, \<open>Load(fileName)\<close> and the constructor from a file name throw a
  \<open>RaylibException\<close> exactly when the engine reports the model that \<open>::LoadModel\<close> returned
  for \<open>name\<close> as not ready; \<open>Load(mesh)\<close> and the constructor from a mesh throw exactly
  when it reports the model that \<open>::LoadModelFromMesh\<close> returned as not ready. When the
  model is ready they return normally and the wrapper object equals the engine-returned
  model in all nine fields.
\<close>

theorem Load_throws_iff_not_ready:
  assumes "c_str fileName = Some name" and "to_string fileName = Some text"
  shows
  "(\<exists>r. Load_file eng this fileName st = Inr r \<and> Model_file eng this fileName st = Inr r
        \<and> (isl r \<longleftrightarrow> \<not> file_ready eng name st)
        \<and> (\<not> file_ready eng name st \<longrightarrow>
             (\<exists>s. r = Inl (RaylibException (''Failed to load Model from '' @ text), s)))
        \<and> (file_ready eng name st \<longrightarrow>
             (\<exists>s. r = Inr s \<and> objs s this = file_model eng name st)))
   \<and> (isl (Load_mesh eng this mesh st) \<longleftrightarrow> \<not> mesh_ready eng mesh st)
   \<and> (isl (Model_mesh eng this mesh st) \<longleftrightarrow> \<not> mesh_ready eng mesh st)
   \<and> (mesh_ready eng mesh st \<longrightarrow>
        (\<exists>s. Load_mesh eng this mesh st = Inr s \<and> Model_mesh eng this mesh st = Inr s
             \<and> objs s this = mesh_model eng mesh st))"
  by (simp add: Model_file_def Model_mesh_def Load_file_cases [OF assms] Load_mesh_cases)

theorem Load_throws_iff_not_ready_witness:
  "c_str \<lparr>sv_data = ''ship.obj'' @ [CHR 0x00], sv_size = 8\<rparr> = Some ''ship.obj''
   \<and> c_str \<lparr>sv_data = ''ship.obj.bak'' @ [CHR 0x00], sv_size = 8\<rparr> = Some ''ship.obj.bak''
   \<and> to_string \<lparr>sv_data = ''ship.obj.bak'' @ [CHR 0x00], sv_size = 8\<rparr> = Some ''ship.obj''
   \<and> file_ready scene_engine ''ship.obj'' scene_state
   \<and> \<not> file_ready scene_engine ''ship.obj.bak'' scene_state
   \<and> mesh_ready scene_engine 7 scene_state
   \<and> (\<exists>s. Load_file scene_engine 2 \<lparr>sv_data = ''ship.obj'' @ [CHR 0x00], sv_size = 8\<rparr>
             scene_state = Inr (Inr s)
           \<and> objs s 2 = scene_model)
   \<and> (\<exists>s. Load_file scene_engine 2 \<lparr>sv_data = ''ship.obj.bak'' @ [CHR 0x00], sv_size = 8\<rparr>
             scene_state
           = Inr (Inl (RaylibException ''Failed to load Model from ship.obj'', s)))
   \<and> (\<exists>s. Load_mesh scene_engine 2 7 scene_state = Inr s
           \<and> Model_mesh scene_engine 2 7 scene_state = Inr s
           \<and> objs s 2 = scene_model\<lparr>meshCount := 1\<rparr>)"
proof -
  let ?whole = "\<lparr>sv_data = ''ship.obj'' @ [CHR 0x00], sv_size = 8\<rparr>"
  let ?cut = "\<lparr>sv_data = ''ship.obj.bak'' @ [CHR 0x00], sv_size = 8\<rparr>"
  have whole: "c_str ?whole = Some ''ship.obj''" "to_string ?whole = Some ''ship.obj''"
    by (simp_all add: c_str_def to_string_def)
  have cut: "c_str ?cut = Some ''ship.obj.bak''" "to_string ?cut = Some ''ship.obj''"
    by (simp_all add: c_str_def to_string_def)
  have ship: "file_ready scene_engine ''ship.obj'' scene_state"
    by (simp add: file_ready_def scene_engine_def scene_model_def nullptr_def word_sless_alt)
  have made: "mesh_ready scene_engine 7 scene_state"
    by (simp add: mesh_ready_def scene_engine_def scene_model_def nullptr_def word_sless_alt)
  have bak: "\<not> file_ready scene_engine ''ship.obj.bak'' scene_state"
    by (simp add: file_ready_def scene_engine_def blank_model_def nullptr_def)
  have ship_model: "file_model scene_engine ''ship.obj'' scene_state = scene_model"
    by (simp add: file_model_def scene_engine_def)
  have made_model: "mesh_model scene_engine 7 scene_state = scene_model\<lparr>meshCount := 1\<rparr>"
    by (simp add: mesh_model_def scene_engine_def)
  note good = Load_throws_iff_not_ready
    [OF whole, of scene_engine 2 scene_state 7, unfolded ship_model made_model]
  note bad = Load_throws_iff_not_ready [OF cut, of scene_engine 2 scene_state 7]
  have message: "''Failed to load Model from '' @ ''ship.obj'' = ''Failed to load Model from ship.obj''"
    by simp
  from good ship made have returns:
    "\<exists>s. Load_file scene_engine 2 ?whole scene_state = Inr (Inr s) \<and> objs s 2 = scene_model"
    and from_mesh: "\<exists>s. Load_mesh scene_engine 2 7 scene_state = Inr s
           \<and> Model_mesh scene_engine 2 7 scene_state = Inr s
           \<and> objs s 2 = scene_model\<lparr>meshCount := 1\<rparr>"
    by blast+
  from bad bak have throws:
    "\<exists>s. Load_file scene_engine 2 ?cut scene_state
           = Inr (Inl (RaylibException ''Failed to load Model from ship.obj'', s))"
    unfolding message by blast
  from whole(1) cut ship bak made returns throws from_mesh show ?thesis by blast
qed

section \<open>Unloading and moving\<close>

lemma Unload_held:
  assumes "meshes (objs st this) \<noteq> nullptr \<or> materials (objs st this) \<noteq> nullptr"
  shows "Unload eng this st =
           \<lparr>objs = (objs st)(this := (objs st this)\<lparr>meshes := nullptr, materials := nullptr\<rparr>),
            world = raylib_UnloadModel eng (objs st this) (world st),
            calls = calls st @ [Call_UnloadModel (objs st this)]\<rparr>"
  using assms by (simp add: Unload_def Let_def)

lemma Unload_empty:
  assumes "meshes (objs st this) = nullptr" and "materials (objs st this) = nullptr"
  shows "Unload eng this st = st"
  using assms by (simp add: Unload_def)

lemma Unload_nulls:
  "meshes (objs (Unload eng this st) this) = nullptr"
  "materials (objs (Unload eng this st) this) = nullptr"
  by (simp_all add: Unload_def Let_def)

lemma Unload_other: "a \<noteq> this \<Longrightarrow> objs (Unload eng this st) a = objs st a"
  by (simp add: Unload_def Let_def)

lemma Unload_twice: "Unload eng this (Unload eng this st) = Unload eng this st"
  by (rule Unload_empty) (rule Unload_nulls)+

lemma unload_count_Unload:
  "unload_count (Unload eng this st) =
     (if meshes (objs st this) \<noteq> nullptr \<or> materials (objs st this) \<noteq> nullptr
      then unload_count st + 1 else unload_count st)"
  by (simp add: Unload_def unload_count_def Let_def)

text \<open>
  Claim C4. \<open>Unload\<close> calls \<open>::UnloadModel\<close>, once and with \<open>*this\<close>, exactly when \<open>meshes\<close>
  or \<open>materials\<close> is not null: then the world is the one the engine's unload leaves and the
  log has that one call more, otherwise world and log are as before. Afterwards both
  pointers are null. A second \<open>Unload\<close> changes nothing, so two in a row make at most one
  engine unload. The destructor is \<open>Unload\<close>.
\<close>

theorem Unload_calls_engine_once:
  "calls (Unload eng this st) =
     (if meshes (objs st this) \<noteq> nullptr \<or> materials (objs st this) \<noteq> nullptr
      then calls st @ [Call_UnloadModel (objs st this)] else calls st)
   \<and> world (Unload eng this st) =
     (if meshes (objs st this) \<noteq> nullptr \<or> materials (objs st this) \<noteq> nullptr
      then raylib_UnloadModel eng (objs st this) (world st) else world st)
   \<and> meshes (objs (Unload eng this st) this) = nullptr
   \<and> materials (objs (Unload eng this st) this) = nullptr
   \<and> Unload eng this (Unload eng this st) = Unload eng this st
   \<and> unload_count (Unload eng this (Unload eng this st)) \<le> unload_count st + 1
   \<and> Model_dtor eng this st = Unload eng this st"
proof -
  have "calls (Unload eng this st) =
     (if meshes (objs st this) \<noteq> nullptr \<or> materials (objs st this) \<noteq> nullptr
      then calls st @ [Call_UnloadModel (objs st this)] else calls st)"
    by (simp add: Unload_def Let_def)
  moreover have "world (Unload eng this st) =
     (if meshes (objs st this) \<noteq> nullptr \<or> materials (objs st this) \<noteq> nullptr
      then raylib_UnloadModel eng (objs st this) (world st) else world st)"
    by (simp add: Unload_def Let_def)
  moreover have "unload_count (Unload eng this (Unload eng this st)) \<le> unload_count st + 1"
    by (simp add: Unload_twice unload_count_Unload)
  ultimately show ?thesis
    by (simp add: Unload_nulls Unload_twice Model_dtor_def)
qed

theorem Unload_calls_engine_once_witness:
  "calls (Unload scene_engine 1 scene_state) = [Call_UnloadModel scene_model]
   \<and> world (Unload scene_engine 1 scene_state) = \<lparr>mesh_mem = (\<lambda>a. None), ext = 0\<rparr>
   \<and> mesh_mem (world scene_state) 10 = Some 0
   \<and> calls (Unload scene_engine 2 scene_state) = []
   \<and> world (Unload scene_engine 2 scene_state) = world scene_state
   \<and> meshes (objs (Unload scene_engine 1 scene_state) 1) = nullptr
   \<and> materials (objs (Unload scene_engine 1 scene_state) 1) = nullptr
   \<and> Unload scene_engine 1 (Unload scene_engine 1 scene_state) = Unload scene_engine 1 scene_state
   \<and> unload_count (Unload scene_engine 1 (Unload scene_engine 1 scene_state)) \<le> 1"
proof -
  have held: "meshes (objs scene_state 1) \<noteq> nullptr \<or> materials (objs scene_state 1) \<noteq> nullptr"
    by (simp add: scene_state_def scene_model_def nullptr_def)
  have empty: "\<not> (meshes (objs scene_state 2) \<noteq> nullptr \<or> materials (objs scene_state 2) \<noteq> nullptr)"
    by (simp add: scene_state_def blank_model_def)
  have facts: "objs scene_state 1 = scene_model" "calls scene_state = []"
    "unload_count scene_state = 0"
    by (simp_all add: scene_state_def unload_count_def)
  have engine: "raylib_UnloadModel scene_engine scene_model (world scene_state)
                = \<lparr>mesh_mem = (\<lambda>a. None), ext = 0\<rparr>"
    "mesh_mem (world scene_state) 10 = Some 0"
    by (simp_all add: scene_engine_def scene_state_def scene_world_def)
  from Unload_calls_engine_once [of scene_engine 1 scene_state]
    Unload_calls_engine_once [of scene_engine 2 scene_state] held empty facts engine
  show ?thesis by auto
qed

lemma null_out_eq:
  "null_out other st =
     st\<lparr>objs := (objs st)(other :=
        \<lparr>transform = transform (objs st other), meshCount = 0, materialCount = 0,
         meshes = nullptr, materials = nullptr, meshMaterial = nullptr, boneCount = 0,
         bones = nullptr, bindPose = nullptr\<rparr>)\<rparr>"
proof -
  have nulled: "(objs st other)\<lparr>meshCount := 0, materialCount := 0, meshes := nullptr,
          materials := nullptr, meshMaterial := nullptr, boneCount := 0, bones := nullptr,
          bindPose := nullptr\<rparr>
        = \<lparr>transform = transform (objs st other), meshCount = 0, materialCount = 0,
           meshes = nullptr, materials = nullptr, meshMaterial = nullptr, boneCount = 0,
           bones = nullptr, bindPose = nullptr\<rparr>"
    by (rule Model.equality) simp_all
  show ?thesis unfolding null_out_def nulled ..
qed

lemma Model_move_objs:
  assumes "this \<noteq> other"
  shows "objs (Model_move this other st) =
           (objs st)(this := objs st other, other :=
             \<lparr>transform = transform (objs st other), meshCount = 0, materialCount = 0,
              meshes = nullptr, materials = nullptr, meshMaterial = nullptr, boneCount = 0,
              bones = nullptr, bindPose = nullptr\<rparr>)"
  using assms by (simp add: Model_move_def null_out_eq set_Model_eq)

lemma assign_move_objs:
  assumes "this \<noteq> other"
  shows "objs (assign_move eng this other st) =
           (objs st)(this := objs st other, other :=
             \<lparr>transform = transform (objs st other), meshCount = 0, materialCount = 0,
              meshes = nullptr, materials = nullptr, meshMaterial = nullptr, boneCount = 0,
              bones = nullptr, bindPose = nullptr\<rparr>)"
proof (rule ext)
  fix a
  show "objs (assign_move eng this other st) a =
          ((objs st)(this := objs st other, other :=
             \<lparr>transform = transform (objs st other), meshCount = 0, materialCount = 0,
              meshes = nullptr, materials = nullptr, meshMaterial = nullptr, boneCount = 0,
              bones = nullptr, bindPose = nullptr\<rparr>)) a"
    using assms
    by (cases "a = this"; cases "a = other";
        simp add: assign_move_def Let_def null_out_eq set_Model_eq Unload_other)
qed

text \<open>
  Claim C3. After move construction, and after move assignment from a distinct object, the
  destination equals the source as it was before, in all nine fields, and the source has
  \<open>meshCount\<close>, \<open>materialCount\<close> and \<open>boneCount\<close> 0 and \<open>meshes\<close>, \<open>materials\<close>,
  \<open>meshMaterial\<close>, \<open>bones\<close> and \<open>bindPose\<close> null.
\<close>

theorem move_transfers_and_nulls_source:
  assumes "this \<noteq> other"
  shows "objs (Model_move this other st) this = objs st other
       \<and> objs (assign_move eng this other st) this = objs st other
       \<and> objs (Model_move this other st) other =
           \<lparr>transform = transform (objs st other), meshCount = 0, materialCount = 0,
            meshes = nullptr, materials = nullptr, meshMaterial = nullptr, boneCount = 0,
            bones = nullptr, bindPose = nullptr\<rparr>
       \<and> objs (assign_move eng this other st) other =
           \<lparr>transform = transform (objs st other), meshCount = 0, materialCount = 0,
            meshes = nullptr, materials = nullptr, meshMaterial = nullptr, boneCount = 0,
            bones = nullptr, bindPose = nullptr\<rparr>"
  using assms by (simp add: Model_move_objs assign_move_objs)

theorem move_transfers_and_nulls_source_witness:
  "(2::addr) \<noteq> 1
   \<and> objs (Model_move 2 1 scene_state) 2 = scene_model
   \<and> objs (assign_move scene_engine 2 1 scene_state) 2 = scene_model
   \<and> objs (Model_move 2 1 scene_state) 1 = blank_model
   \<and> objs (assign_move scene_engine 2 1 scene_state) 1 = blank_model"
proof -
  have distinct: "(2::addr) \<noteq> 1" by simp
  have source: "objs scene_state 1 = scene_model" by (simp add: scene_state_def)
  have nulled: "\<lparr>transform = transform scene_model, meshCount = 0, materialCount = 0,
            meshes = nullptr, materials = nullptr, meshMaterial = nullptr, boneCount = 0,
            bones = nullptr, bindPose = nullptr\<rparr> = blank_model"
    by (simp add: scene_model_def blank_model_def)
  note move_transfers_and_nulls_source
    [OF distinct, of scene_state scene_engine, unfolded source nulled]
  with distinct show ?thesis by blast
qed

lemma Unload_funpow_empty:
  assumes "meshes (objs st this) = nullptr" and "materials (objs st this) = nullptr"
  shows "(Unload eng this ^^ n) st = st"
  by (induction n) (simp_all add: Unload_empty [OF assms])

text \<open>
  Claim C5. After a model has been moved from, by move construction or by move assignment
  into a distinct object, its \<open>meshes\<close> and \<open>materials\<close> are null, so any number of
  \<open>Unload\<close>s on it, and its destructor, change nothing: the log of engine calls stays as it
  is and no \<open>::UnloadModel\<close> is called.
\<close>

theorem moved_from_never_unloads:
  assumes "this \<noteq> other"
  shows "(Unload eng other ^^ n) (Model_move this other st) = Model_move this other st
       \<and> Model_dtor eng other (Model_move this other st) = Model_move this other st
       \<and> (Unload eng other ^^ n) (assign_move eng' this other st) = assign_move eng' this other st
       \<and> Model_dtor eng other (assign_move eng' this other st) = assign_move eng' this other st
       \<and> unload_count ((Unload eng other ^^ n) (Model_move this other st))
           = unload_count (Model_move this other st)
       \<and> unload_count ((Unload eng other ^^ n) (assign_move eng' this other st))
           = unload_count (assign_move eng' this other st)"
proof -
  have moved: "meshes (objs (Model_move this other st) other) = nullptr"
    "materials (objs (Model_move this other st) other) = nullptr"
    using assms by (simp_all add: Model_move_objs)
  have assigned: "meshes (objs (assign_move eng' this other st) other) = nullptr"
    "materials (objs (assign_move eng' this other st) other) = nullptr"
    using assms by (simp_all add: assign_move_objs)
  show ?thesis
    by (simp add: Unload_funpow_empty [OF moved] Unload_funpow_empty [OF assigned]
        Unload_empty [OF moved] Unload_empty [OF assigned] Model_dtor_def)
qed

theorem moved_from_never_unloads_witness:
  "(2::addr) \<noteq> 1
   \<and> (Unload scene_engine 1 ^^ 3) (Model_move 2 1 scene_state) = Model_move 2 1 scene_state
   \<and> Model_dtor scene_engine 1 (assign_move scene_engine 2 1 scene_state)
       = assign_move scene_engine 2 1 scene_state
   \<and> calls (Model_dtor scene_engine 1 (Model_move 2 1 scene_state)) = []"
proof -
  have distinct: "(2::addr) \<noteq> 1" by simp
  have log: "calls (Model_move 2 1 scene_state) = []"
    by (simp add: Model_move_def null_out_def set_Model_def scene_state_def)
  from moved_from_never_unloads
    [OF distinct, where eng = scene_engine and n = 3 and st = scene_state
      and eng' = scene_engine]
    distinct log
  show ?thesis by auto
qed

section \<open>Copying a raw model\<close>

text \<open>
  Claim C9. Construction from a raw \<open>::Model\<close> and \<open>operator=(const ::Model&)\<close> copy all nine
  fields of the source into the wrapper and touch nothing else: the world and the log of
  engine calls stay as they are, so no \<open>::UnloadModel\<close> is called for what the wrapper held,
  and the five pointers of the wrapper equal the source's.
\<close>

theorem raw_copy_is_shallow:
  "Model_copy this model st = st\<lparr>objs := (objs st)(this := model)\<rparr>
   \<and> assign_raw this model st = st\<lparr>objs := (objs st)(this := model)\<rparr>
   \<and> calls (assign_raw this model st) = calls st
   \<and> world (assign_raw this model st) = world st
   \<and> unload_count (assign_raw this model st) = unload_count st
   \<and> unload_count (Model_copy this model st) = unload_count st
   \<and> meshes (objs (assign_raw this model st) this) = meshes model
   \<and> materials (objs (assign_raw this model st) this) = materials model
   \<and> meshMaterial (objs (assign_raw this model st) this) = meshMaterial model
   \<and> bones (objs (assign_raw this model st) this) = bones model
   \<and> bindPose (objs (assign_raw this model st) this) = bindPose model"
  by (simp add: Model_copy_def assign_raw_def set_Model_eq unload_count_def)

theorem raw_copy_is_shallow_witness:
  "assign_raw 1 blank_model scene_state
     = scene_state\<lparr>objs := (objs scene_state)(1 := blank_model)\<rparr>
   \<and> meshes (objs scene_state 1) = 10
   \<and> meshes (objs (assign_raw 1 blank_model scene_state) 1) = nullptr
   \<and> calls (assign_raw 1 blank_model scene_state) = []
   \<and> unload_count (assign_raw 1 blank_model scene_state) = 0"
proof -
  have before: "meshes (objs scene_state 1) = 10" "calls scene_state = []"
    "unload_count scene_state = 0" "meshes blank_model = nullptr"
    by (simp_all add: scene_state_def scene_model_def blank_model_def unload_count_def)
  from raw_copy_is_shallow [of 1 blank_model scene_state] before
  show ?thesis by auto
qed

section \<open>Forwarding, accessors and const methods\<close>



text \<open>
  Claim C7. Each of the nine getters returns the current value of its field, and each of the
  nine setters makes its own getter return the argument and leaves what the other eight
  getters return as it was.
\<close>

theorem accessors_read_and_write_one_field:
  "getters this st =
     (transform (objs st this), meshCount (objs st this), materialCount (objs st this),
      meshes (objs st this), materials (objs st this), meshMaterial (objs st this),
      boneCount (objs st this), bones (objs st this), bindPose (objs st this))
   \<and> getters this (SetTransform this t st) =
     (t, GetMeshCount this st, GetMaterialCount this st, GetMeshes this st,
      GetMaterials this st, GetMeshMaterial this st, GetBoneCount this st, GetBones this st,
      GetBindPose this st)
   \<and> getters this (SetMeshCount this n st) =
     (GetTransform this st, n, GetMaterialCount this st, GetMeshes this st,
      GetMaterials this st, GetMeshMaterial this st, GetBoneCount this st, GetBones this st,
      GetBindPose this st)
   \<and> getters this (SetMaterialCount this n st) =
     (GetTransform this st, GetMeshCount this st, n, GetMeshes this st,
      GetMaterials this st, GetMeshMaterial this st, GetBoneCount this st, GetBones this st,
      GetBindPose this st)
   \<and> getters this (SetMeshes this p st) =
     (GetTransform this st, GetMeshCount this st, GetMaterialCount this st, p,
      GetMaterials this st, GetMeshMaterial this st, GetBoneCount this st, GetBones this st,
      GetBindPose this st)
   \<and> getters this (SetMaterials this p st) =
     (GetTransform this st, GetMeshCount this st, GetMaterialCount this st, GetMeshes this st,
      p, GetMeshMaterial this st, GetBoneCount this st, GetBones this st,
      GetBindPose this st)
   \<and> getters this (SetMeshMaterial_ptr this p st) =
     (GetTransform this st, GetMeshCount this st, GetMaterialCount this st, GetMeshes this st,
      GetMaterials this st, p, GetBoneCount this st, GetBones this st,
      GetBindPose this st)
   \<and> getters this (SetBoneCount this n st) =
     (GetTransform this st, GetMeshCount this st, GetMaterialCount this st, GetMeshes this st,
      GetMaterials this st, GetMeshMaterial this st, n, GetBones this st,
      GetBindPose this st)
   \<and> getters this (SetBones this p st) =
     (GetTransform this st, GetMeshCount this st, GetMaterialCount this st, GetMeshes this st,
      GetMaterials this st, GetMeshMaterial this st, GetBoneCount this st, p,
      GetBindPose this st)
   \<and> getters this (SetBindPose this p st) =
     (GetTransform this st, GetMeshCount this st, GetMaterialCount this st, GetMeshes this st,
      GetMaterials this st, GetMeshMaterial this st, GetBoneCount this st, GetBones this st,
      p)"
  by (simp add: getters_def
      GetTransform_def GetMeshCount_def GetMaterialCount_def GetMeshes_def GetMaterials_def
      GetMeshMaterial_def GetBoneCount_def GetBones_def GetBindPose_def
      SetTransform_def SetMeshCount_def SetMaterialCount_def SetMeshes_def SetMaterials_def
      SetMeshMaterial_ptr_def SetBoneCount_def SetBones_def SetBindPose_def)

theorem accessors_read_and_write_one_field_witness:
  "getters 1 scene_state = (Matrix [], 3, 1, 10, 20, 30, 0, nullptr, nullptr)
   \<and> getters 1 (SetMeshCount 1 5 scene_state)
       = (Matrix [], 5, 1, 10, 20, 30, 0, nullptr, nullptr)
   \<and> getters 1 (SetBones 1 50 scene_state)
       = (Matrix [], 3, 1, 10, 20, 30, 0, 50, nullptr)"
proof -
  have scene: "objs scene_state 1 = scene_model" by (simp add: scene_state_def)
  have now: "getters 1 scene_state = (Matrix [], 3, 1, 10, 20, 30, 0, nullptr, nullptr)"
    using accessors_read_and_write_one_field [of 1 scene_state "Matrix []" 5 50]
    unfolding scene by (simp add: scene_model_def)
  then have each: "GetTransform 1 scene_state = Matrix []" "GetMeshCount 1 scene_state = 3"
    "GetMaterialCount 1 scene_state = 1" "GetMeshes 1 scene_state = 10"
    "GetMaterials 1 scene_state = 20" "GetMeshMaterial 1 scene_state = 30"
    "GetBoneCount 1 scene_state = 0" "GetBones 1 scene_state = nullptr"
    "GetBindPose 1 scene_state = nullptr"
    by (simp_all add: getters_def)
  from accessors_read_and_write_one_field [of 1 scene_state "Matrix []" 5 50] now each
  show ?thesis by simp
qed

lemma GetTransformedBoundingBox_state:
  assumes returned: "GetTransformedBoundingBox eng this st = Inr (box, s)"
  shows "s = st"
proof (cases "0 <s meshCount (objs st this)")
  case False
  with returned show ?thesis
    by (simp add: GetTransformedBoundingBox_def Let_def)
next
  case True
  show ?thesis
  proof (cases "mesh_at (world st) (meshes (objs st this)) 0")
    case None
    with True returned show ?thesis
      by (simp add: GetTransformedBoundingBox_def Let_def)
  next
    case (Some mesh)
    show ?thesis
    proof (cases "bounds_loop eng (world st) (objs st this) 1
                    (Mesh_GetTransformedBoundingBox eng (world st) mesh
                      (transform (objs st this)))")
      case (Inl e)
      with True Some returned show ?thesis
        by (simp add: GetTransformedBoundingBox_def Let_def)
    next
      case (Inr bounds)
      with True Some returned show ?thesis
        by (simp add: GetTransformedBoundingBox_def Let_def)
    qed
  qed
qed

text \<open>
  Claim C8. The const methods, that is both \<open>Draw\<close> overloads, both \<open>DrawWires\<close> overloads,
  \<open>GetBoundingBox\<close>, \<open>GetTransformedBoundingBox\<close> (whenever it returns),
  \<open>IsModelAnimationValid\<close>, \<open>IsReady\<close> and the conversion to \<open>BoundingBox\<close>, leave every
  field of the model, and of every other wrapper object, unchanged.
\<close>

theorem const_methods_keep_fields:
  "objs (Draw eng this position scale tint st) = objs st
   \<and> objs (DrawEx eng this position rotationAxis rotationAngle scale3 tint st) = objs st
   \<and> objs (DrawWires eng this position scale tint st) = objs st
   \<and> objs (DrawWiresEx eng this position rotationAxis rotationAngle scale3 tint st) = objs st
   \<and> objs (snd (GetBoundingBox eng this st)) = objs st
   \<and> (\<forall>box s. GetTransformedBoundingBox eng this st = Inr (box, s) \<longrightarrow> objs s = objs st)
   \<and> objs (snd (IsModelAnimationValid eng this anim st)) = objs st
   \<and> objs (snd (IsReady eng this st)) = objs st
   \<and> objs (snd (operator_BoundingBox eng this st)) = objs st"
proof -
  have draws:
    "objs (Draw eng this position scale tint st) = objs st"
    "objs (DrawEx eng this position rotationAxis rotationAngle scale3 tint st) = objs st"
    "objs (DrawWires eng this position scale tint st) = objs st"
    "objs (DrawWiresEx eng this position rotationAxis rotationAngle scale3 tint st) = objs st"
    by (simp_all add: Draw_def DrawEx_def DrawWires_def DrawWiresEx_def)
  have queries:
    "objs (snd (GetBoundingBox eng this st)) = objs st"
    "objs (snd (IsModelAnimationValid eng this anim st)) = objs st"
    "objs (snd (IsReady eng this st)) = objs st"
    "objs (snd (operator_BoundingBox eng this st)) = objs st"
    by (simp_all add: GetBoundingBox_def IsModelAnimationValid_def IsReady_def
        operator_BoundingBox_def case_prod_beta)
  have "\<forall>box s. GetTransformedBoundingBox eng this st = Inr (box, s) \<longrightarrow> objs s = objs st"
    using GetTransformedBoundingBox_state [of eng this st] by blast
  with draws queries show ?thesis by blast
qed

theorem const_methods_keep_fields_witness:
  "GetTransformedBoundingBox scene_engine 1 scene_state
     = Inr (merged_bounds (map scene_box [0, 1, 2]), scene_state)
   \<and> objs (Draw scene_engine 1 \<lparr>x = 0, y = 0, z = 0\<rparr> 0x3F800000 (Color 255 255 255 255)
             scene_state) 1 = scene_model
   \<and> ext (world (Draw scene_engine 1 \<lparr>x = 0, y = 0, z = 0\<rparr> 0x3F800000
                   (Color 255 255 255 255) scene_state)) = 1
   \<and> objs (snd (IsReady scene_engine 1 scene_state)) 1 = scene_model"
proof -
  have count: "1 \<le>s meshCount (objs scene_state 1)"
    by (simp add: scene_state_def scene_model_def word_sle_eq)
  have cells: "mesh_cells (world scene_state) (objs scene_state 1) = map Some [0, 1, 2]"
    by (simp add: mesh_cells_def scene_state_def scene_world_def scene_model_def mesh_at_def
        nullptr_def upt_rec)
  have boxes: "mesh_boxes scene_engine (world scene_state) (objs scene_state 1) [0, 1, 2]
               = map scene_box [0, 1, 2]"
    by (simp add: mesh_boxes_def scene_engine_def)
  have returns: "GetTransformedBoundingBox scene_engine 1 scene_state
     = Inr (merged_bounds (map scene_box [0, 1, 2]), scene_state)"
    using GetTransformedBoundingBox_fold [OF count cells, of scene_engine]
    unfolding boxes .
  have scene: "objs scene_state 1 = scene_model" by (simp add: scene_state_def)
  have drawn: "ext (world (Draw scene_engine 1 \<lparr>x = 0, y = 0, z = 0\<rparr> 0x3F800000
                   (Color 255 255 255 255) scene_state)) = 1"
    by (simp add: Draw_def scene_engine_def scene_state_def scene_world_def)
  note const_methods_keep_fields
    [of scene_engine 1 "\<lparr>x = 0, y = 0, z = 0\<rparr>" "0x3F800000" "Color 255 255 255 255"
      scene_state "\<lparr>x = 0, y = 0, z = 0\<rparr>" 0 "\<lparr>x = 0, y = 0, z = 0\<rparr>" 0, unfolded scene]
  then have "objs (Draw scene_engine 1 \<lparr>x = 0, y = 0, z = 0\<rparr> 0x3F800000
                     (Color 255 255 255 255) scene_state) = objs scene_state"
    and "objs (snd (IsReady scene_engine 1 scene_state)) = objs scene_state"
    by blast+
  with returns scene drawn show ?thesis by simp
qed

end
